theory Spec2Isabelle
  imports Complex_Main
begin

section \<open>Numbers and strings of the host language\<close>

text \<open>
  The program is TypeScript. Its numbers are modelled as mathematical numbers: frame
  counts, frame indices and pixel sizes as \<^typ>\<open>int\<close>, lengths, colours and times as
  \<^typ>\<open>real\<close>. Where the source divides by a quantity that can be zero the model
  says so explicitly (an \<^typ>\<open>'a option\<close> result, or a separate branch), because
  division by zero is \<open>0\<close> in HOL and \<open>NaN\<close> or \<open>Infinity\<close> in the program.
\<close>

definition js_round :: "real \<Rightarrow> int" where
  \<comment> \<open>\<open>Math.round\<close>: the nearest integer, a tie going up.\<close>
  "js_round v = \<lfloor>v + 1 / 2\<rfloor>"

definition js_rem :: "int \<Rightarrow> int \<Rightarrow> int option" where
  \<comment> \<open>The operator \<open>%\<close> on integers: the sign of the dividend; \<open>NaN\<close> (here \<open>None\<close>) for a zero divisor.\<close>
  "js_rem a b =
     (if b = 0 then None
      else if 0 \<le> a then Some (a mod \<bar>b\<bar>) else Some (- ((- a) mod \<bar>b\<bar>)))"

definition digitChar :: "nat \<Rightarrow> char" where
  "digitChar d = ''0123456789'' ! d"

fun digitsOf :: "nat \<Rightarrow> string" where
  "digitsOf n = (if n < 10 then [digitChar n] else digitsOf (n div 10) @ [digitChar (n mod 10)])"

declare digitsOf.simps [simp del]

definition toString :: "int \<Rightarrow> string" where
  \<comment> \<open>\<open>Number.prototype.toString\<close> on an integer.\<close>
  "toString i = (if i < 0 then CHR ''-'' # digitsOf (nat (- i)) else digitsOf (nat i))"

definition padStart :: "nat \<Rightarrow> char \<Rightarrow> string \<Rightarrow> string" where
  \<comment> \<open>\<open>String.prototype.padStart\<close> with a one-character filler.\<close>
  "padStart n filler s = replicate (n - length s) filler @ s"

definition truthy :: "string option \<Rightarrow> string option" where
  \<comment> \<open>A string or \<open>null\<close> under the test \<open>!value\<close>: \<open>null\<close> and the empty string fail it.\<close>
  "truthy v = (case v of None \<Rightarrow> None | Some t \<Rightarrow> if t = [] then None else Some t)"

section \<open>Animation clock (hook \<open>useAnimation\<close>)\<close>

record clip =
  clipName :: string
  duration :: real

record clock =
  isPlaying :: bool
  currentAnimation :: "string option"
  currentFrame :: int
  totalFrames :: int

definition framesOfDuration :: "real \<Rightarrow> int" where
  \<comment> \<open>\<open>Math.floor(anim.duration * fps)\<close> with \<open>fps = 30\<close>.\<close>
  "framesOfDuration d = \<lfloor>d * 30\<rfloor>"

definition findClip :: "clip list \<Rightarrow> string \<Rightarrow> clip option" where
  \<comment> \<open>\<open>model.animations.find(a => a.name === animation)\<close>.\<close>
  "findClip clips name = find (\<lambda>a. clipName a = name) clips"

definition modelChanged :: "clip list option \<Rightarrow> clock \<Rightarrow> clock" where
  \<comment> \<open>The effect that runs when the model changes; \<open>None\<close> is a missing model or a
      model without an \<open>animations\<close> field.\<close>
  "modelChanged animations k =
     (case animations of
        None \<Rightarrow> k\<lparr>currentAnimation := None, totalFrames := 0, currentFrame := 0\<rparr>
      | Some clips \<Rightarrow>
          (case clips of
             [] \<Rightarrow> k
           | firstAnim # _ \<Rightarrow>
               (let k1 = (case truthy (currentAnimation k) of
                            None \<Rightarrow> k\<lparr>currentAnimation := Some (clipName firstAnim)\<rparr>
                          | Some _ \<Rightarrow> k)
                in k1\<lparr>totalFrames := framesOfDuration (duration firstAnim)\<rparr>)))"

definition updateFrame :: "int \<Rightarrow> int \<Rightarrow> int option" where
  \<comment> \<open>The playback tick, once the frame time has elapsed: \<open>(prevFrame + 1) % totalFrames\<close>.\<close>
  "updateFrame frameTotal prevFrame = js_rem (prevFrame + 1) frameTotal"

definition previousFrame :: "int \<Rightarrow> int \<Rightarrow> int" where
  "previousFrame frameTotal prev = (if prev \<le> 0 then frameTotal - 1 else prev - 1)"

definition nextFrame :: "int \<Rightarrow> int \<Rightarrow> int" where
  "nextFrame frameTotal prev = (if prev \<ge> frameTotal - 1 then 0 else prev + 1)"

definition setAnimation :: "clip list option \<Rightarrow> string \<Rightarrow> clock \<Rightarrow> clock" where
  "setAnimation animations animation k =
     (let k1 = k\<lparr>currentAnimation := Some animation, currentFrame := 0\<rparr>
      in case animations of
           None \<Rightarrow> k1
         | Some clips \<Rightarrow>
             (case findClip clips animation of
                None \<Rightarrow> k1
              | Some anim \<Rightarrow> k1\<lparr>totalFrames := framesOfDuration (duration anim)\<rparr>))"

definition switchAnimation :: "clip list option \<Rightarrow> string \<Rightarrow> clock \<Rightarrow> clock" where
  \<comment> \<open>Switching the active animation as the hook does it: the callback \<open>setAnimation\<close>,
      then, the name having changed, the effect on \<open>[model, currentAnimation]\<close> runs again
      (\<open>modelChanged\<close>). With the same name as before the effect does not run.\<close>
  "switchAnimation animations animation k =
     (if currentAnimation k = Some animation
      then setAnimation animations animation k
      else modelChanged animations (setAnimation animations animation k))"

section \<open>Seeking the animation mixer (component \<open>Viewport\<close>)\<close>

definition seekCurrentFrame :: "real \<Rightarrow> int \<Rightarrow> int \<Rightarrow> real" where
  \<comment> \<open>The effect on \<open>currentFrame\<close> while paused, entered only when \<open>totalFrames > 0\<close>:
      the time given to \<open>mixer.setTime\<close>.\<close>
  "seekCurrentFrame clipDuration frame frameTotal = (real_of_int frame / real_of_int frameTotal) * clipDuration"

definition handleFrameChange :: "real \<Rightarrow> int \<Rightarrow> int \<Rightarrow> int \<Rightarrow> real option" where
  \<comment> \<open>The listener of the events \<open>frame-change\<close> and \<open>set-frame\<close>: the time given to
      \<open>mixer.setTime\<close>. \<open>event.detail.totalFrames || totalFrames\<close> falls back to the
      component's own count when the event carries \<open>0\<close>. \<open>None\<close> is a time that is not
      finite (the divisor \<open>totalFramesInEvent - 1\<close> is zero).\<close>
  "handleFrameChange animDuration frame eventTotalFrames ownTotalFrames =
     (let totalFramesInEvent = (if eventTotalFrames = 0 then ownTotalFrames else eventTotalFrames)
      in if totalFramesInEvent - 1 = 0 then None
         else Some ((real_of_int frame / real_of_int (totalFramesInEvent - 1)) * animDuration))"

section \<open>Effects stage (\<open>ImageEffectsShader\<close>)\<close>

text \<open>
  The fragment shader, with GLSL floats read as reals. A GLSL division by zero is
  undefined; in the model it is HOL's (the value \<open>0\<close>). The posterization step and the
  alpha channel, which the properties below are about, involve no division by a
  variable quantity other than \<open>steps \<ge> 2\<close>.
\<close>

type_synonym vec3 = "real \<times> real \<times> real"
type_synonym vec4 = "real \<times> real \<times> real \<times> real"

record effects =
  brightness :: real
  contrast :: real
  saturation :: real
  hue :: real
  colorSteps :: real

definition glsl_step :: "real \<Rightarrow> real \<Rightarrow> real" where
  "glsl_step edge v = (if v < edge then 0 else 1)"

definition glsl_mix :: "real \<Rightarrow> real \<Rightarrow> real \<Rightarrow> real" where
  "glsl_mix a b t = a * (1 - t) + b * t"

definition glsl_fract :: "real \<Rightarrow> real" where
  "glsl_fract v = v - of_int \<lfloor>v\<rfloor>"

definition glsl_clamp :: "real \<Rightarrow> real \<Rightarrow> real \<Rightarrow> real" where
  "glsl_clamp v lo hi = min (max v lo) hi"

definition glsl_floor :: "real \<Rightarrow> real" where
  "glsl_floor v = of_int \<lfloor>v\<rfloor>"

definition mix4 :: "vec4 \<Rightarrow> vec4 \<Rightarrow> real \<Rightarrow> vec4" where
  "mix4 a b t =
     (case (a, b) of ((a1, a2, a3, a4), (b1, b2, b3, b4)) \<Rightarrow>
        (glsl_mix a1 b1 t, glsl_mix a2 b2 t, glsl_mix a3 b3 t, glsl_mix a4 b4 t))"

definition rgb2hsv :: "vec3 \<Rightarrow> vec3" where
  "rgb2hsv c =
     (case c of (cr, cg, cb) \<Rightarrow>
        (let Kx = 0; Ky = - 1 / 3; Kz = 2 / 3; Kw = - 1;
             p = mix4 (cb, cg, Kw, Kz) (cg, cb, Kx, Ky) (glsl_step cb cg)
         in case p of (px, py, pz, pw) \<Rightarrow>
              (let q = mix4 (px, py, pw, cr) (cr, py, pz, px) (glsl_step px cr)
               in case q of (qx, qy, qz, qw) \<Rightarrow>
                    (let d = qx - min qw qy;
                         e = 1 / 10 ^ 10
                     in (\<bar>qz + (qw - qy) / (6 * d + e)\<bar>, d / (qx + e), qx)))))"

definition hsv2rgb :: "vec3 \<Rightarrow> vec3" where
  "hsv2rgb c =
     (case c of (cx, cy, cz) \<Rightarrow>
        (let Kx = 1; Ky = 2 / 3; Kz = 1 / 3; Kw = 3;
             p1 = \<bar>glsl_fract (cx + Kx) * 6 - Kw\<bar>;
             p2 = \<bar>glsl_fract (cx + Ky) * 6 - Kw\<bar>;
             p3 = \<bar>glsl_fract (cx + Kz) * 6 - Kw\<bar>
         in (cz * glsl_mix Kx (glsl_clamp (p1 - Kx) 0 1) cy,
             cz * glsl_mix Kx (glsl_clamp (p2 - Kx) 0 1) cy,
             cz * glsl_mix Kx (glsl_clamp (p3 - Kx) 0 1) cy)))"

definition posterizeChannel :: "real \<Rightarrow> real \<Rightarrow> real" where
  \<comment> \<open>One channel of the step guarded by \<open>colorSteps > 0.0\<close>.\<close>
  "posterizeChannel cs v =
     (if cs > 0 then (let steps = max 2 (glsl_floor cs) in glsl_floor (v * steps) / steps) else v)"

definition posterize :: "real \<Rightarrow> vec3 \<Rightarrow> vec3" where
  "posterize cs c =
     (case c of (cr, cg, cb) \<Rightarrow>
        (posterizeChannel cs cr, posterizeChannel cs cg, posterizeChannel cs cb))"

definition gradeColor :: "effects \<Rightarrow> vec3 \<Rightarrow> vec3" where
  \<comment> \<open>Brightness, contrast, hue shift and saturation: the colour before posterization.\<close>
  "gradeColor fx rgb =
     (case rgb of (tr, tg, tb) \<Rightarrow>
        (let c1 = (tr * brightness fx, tg * brightness fx, tb * brightness fx);
             c2 = (case c1 of (r1, g1, b1) \<Rightarrow>
                     ((r1 - 1 / 2) * contrast fx + 1 / 2,
                      (g1 - 1 / 2) * contrast fx + 1 / 2,
                      (b1 - 1 / 2) * contrast fx + 1 / 2))
         in case rgb2hsv c2 of (hx, hy, hz) \<Rightarrow>
              hsv2rgb (glsl_fract (hx + hue fx / 360), hy * saturation fx, hz)))"

definition fragmentShader :: "effects \<Rightarrow> vec4 \<Rightarrow> vec4" where
  \<comment> \<open>\<open>main\<close>: the texel in, \<open>gl_FragColor\<close> out.\<close>
  "fragmentShader fx texel =
     (case texel of (tr, tg, tb, ta) \<Rightarrow>
        (case posterize (colorSteps fx) (gradeColor fx (tr, tg, tb)) of
           (outR, outG, outB) \<Rightarrow> (outR, outG, outB, ta)))"

definition alphaOf :: "vec4 \<Rightarrow> real" where
  "alphaOf texel = (case texel of (_, _, _, ta) \<Rightarrow> ta)"


section \<open>Preview-to-export mapper (\<open>updateExportPreview\<close>)\<close>

record exportPreviewRect =
  rectLeft :: int
  rectTop :: int
  rectWidth :: int
  rectHeight :: int

text \<open>
  The program computes this rectangle in double precision, and rounds it to pixels. The
  model keeps the rounding of double arithmetic as a parameter \<open>fl\<close>: the program's
  value of an operation is \<open>fl\<close> of its exact value, and of a decimal literal \<open>fl\<close> of
  the number written. Comparisons, \<open>Math.min\<close>, \<open>Math.max\<close> and \<open>Math.round\<close> are exact,
  and so are integers and \<open>0.5\<close>. Statements assume of \<open>fl\<close> only a bound on its relative
  error that the rounding to doubles meets with room to spare.
\<close>

definition previewSize ::
  "(real \<Rightarrow> real) \<Rightarrow> real \<Rightarrow> real \<Rightarrow> real \<Rightarrow> real \<Rightarrow> real \<times> real" where
  \<comment> \<open>\<open>previewWidth\<close> and \<open>previewHeight\<close> after the minimum-size step, before rounding.
      Meant for \<open>containerHeight \<noteq> 0\<close> and \<open>exportHeight \<noteq> 0\<close>, where the two quotients
      are finite in the program.\<close>
  "previewSize fl containerWidth containerHeight exportWidth exportHeight =
     (let exportAspectRatio = fl (exportWidth / exportHeight);
          containerAspectRatio = fl (containerWidth / containerHeight);
          (previewWidth, previewHeight) =
            (if exportAspectRatio > containerAspectRatio
             then (let scaleFactor =
                         min (fl (98 / 100))
                           (fl (fl (85 / 100) + fl (fl (containerWidth / 1500) * fl (13 / 100))));
                       pw = fl (containerWidth * scaleFactor)
                   in (pw, fl (pw / exportAspectRatio)))
             else (let scaleFactor =
                         min (fl (98 / 100))
                           (fl (fl (85 / 100) + fl (fl (containerHeight / 1000) * fl (13 / 100))));
                       ph = fl (containerHeight * scaleFactor)
                   in (fl (ph * exportAspectRatio), ph)));
          minPreviewSize = fl (min containerWidth containerHeight * (1 / 2))
      in (max previewWidth (fl (minPreviewSize * exportAspectRatio)),
          max previewHeight minPreviewSize))"

definition updateExportPreview ::
  "(real \<Rightarrow> real) \<Rightarrow> real \<Rightarrow> real \<Rightarrow> real \<Rightarrow> real \<Rightarrow> exportPreviewRect" where
  \<comment> \<open>In the program as mounted the component gets no export size and uses its
      defaults, \<open>exportWidth = 128\<close> and \<open>exportHeight = 128\<close>.\<close>
  "updateExportPreview fl containerWidth containerHeight exportWidth exportHeight =
     (case previewSize fl containerWidth containerHeight exportWidth exportHeight of
        (previewWidth, previewHeight) \<Rightarrow>
          \<lparr>rectLeft = js_round (fl (fl (containerWidth - previewWidth) / 2)),
           rectTop = js_round (fl (fl (containerHeight - previewHeight) / 2)),
           rectWidth = js_round previewWidth,
           rectHeight = js_round previewHeight\<rparr>)"

section \<open>Frame sampling (\<open>exportSequence\<close>)\<close>

text \<open>
  The loop \<open>for (let i = 0; i < totalFrames; i += step) framesToRender.push(i)\<close>. The
  step of the program is \<open>Math.max(1, \<dots>)\<close>, hence at least one whenever it is finite;
  the guard \<open>1 \<le> step\<close> only records this and makes the recursion terminate.
\<close>

function sampleFrom :: "int \<Rightarrow> int \<Rightarrow> int \<Rightarrow> int list" where
  "sampleFrom i step frameTotal =
     (if i < frameTotal \<and> 1 \<le> step then i # sampleFrom (i + step) step frameTotal else [])"
  by pat_completeness auto
termination
  by (relation "measure (\<lambda>(i, step, frameTotal). nat (frameTotal - i))") auto

declare sampleFrom.simps [simp del]

definition framesToRender :: "int \<Rightarrow> int \<Rightarrow> int list" where
  \<comment> \<open>\<open>renderSteps = 0\<close> makes the step infinite (one pass of the loop when
      \<open>totalFrames > 0\<close>) or \<open>NaN\<close> (no pass). Reading past the end of the empty array
      gives \<open>undefined\<close>, which differs from every number.\<close>
  "framesToRender frameTotal renderSteps =
     (let sampled =
            (if renderSteps = 0 then (if 0 < frameTotal then [0] else [])
             else sampleFrom 0 (max 1 (frameTotal div renderSteps)) frameTotal)
      in if sampled = [] then sampled @ [frameTotal - 1]
         else if last sampled = frameTotal - 1 then sampled
         else sampled @ [frameTotal - 1])"

definition specFrames :: "int \<Rightarrow> int \<Rightarrow> int list" where
  \<comment> \<open>The sampling as the specification words it: the multiples of the stride below
      \<open>totalFrames\<close>, and \<open>totalFrames - 1\<close> appended when the last of them is another index.\<close>
  "specFrames frameTotal renderSteps =
     (let stride = max 1 (frameTotal div renderSteps);
          multiples = filter (\<lambda>i. i mod stride = 0) [0..frameTotal - 1]
      in if last multiples = frameTotal - 1 then multiples else multiples @ [frameTotal - 1])"

section \<open>Render context\<close>

text \<open>
  The part of the three.js renderer, scene and camera that \<open>renderFrame\<close> reads and
  writes. \<open>setSize\<close> stores the logical size and sizes the drawing buffer by the pixel
  ratio; \<open>setPixelRatio\<close> stores the ratio and calls \<open>setSize\<close> with the stored size.
  \<open>renderCalls\<close> counts the render passes issued (\<open>composer.render()\<close> or
  \<open>renderer.render(scene, camera)\<close>); the program has no such counter, it records
  that rendering took place.
\<close>

datatype backgroundValue = BackgroundColor nat | BackgroundTexture nat

datatype projection =
    Perspective real real real real
  | Orthographic real real real real real real
  | OtherCamera

text \<open>
  \<open>Perspective aspect fov far near\<close> and \<open>Orthographic left right top bottom far near\<close>;
  \<open>OtherCamera\<close> is a \<open>THREE.Camera\<close> of neither class.
\<close>

record cameraState =
  position :: vec3
  rotation :: vec3
  zoom :: real
  projection :: projection

record rendererState =
  sizeWidth :: real
  sizeHeight :: real
  pixelRatio :: real
  clearColor :: nat
  clearAlpha :: real
  canvasWidth :: int
  canvasHeight :: int

record sceneState =
  background :: "backgroundValue option"

record renderContext =
  renderer :: rendererState
  scene :: sceneState
  camera :: cameraState
  composer :: "(real \<times> real) option"
  renderCalls :: nat

definition canvasAttr :: "int \<Rightarrow> int \<Rightarrow> int" where
  \<comment> \<open>Assigning \<open>width\<close> or \<open>height\<close> of an HTML canvas: a value that is negative or
      above \<open>2147483647\<close> gives the attribute its default (300 for the width, 150 for the
      height).\<close>
  "canvasAttr dflt v = (if v < 0 then dflt else if 2147483647 < v then dflt else v)"

definition setSize :: "real \<Rightarrow> real \<Rightarrow> rendererState \<Rightarrow> rendererState" where
  "setSize w h r =
     r\<lparr>sizeWidth := w, sizeHeight := h,
       canvasWidth := canvasAttr 300 \<lfloor>w * pixelRatio r\<rfloor>,
       canvasHeight := canvasAttr 150 \<lfloor>h * pixelRatio r\<rfloor>\<rparr>"

definition setPixelRatio :: "real \<Rightarrow> rendererState \<Rightarrow> rendererState" where
  "setPixelRatio v r = setSize (sizeWidth r) (sizeHeight r) (r\<lparr>pixelRatio := v\<rparr>)"

definition setClearColor :: "nat \<Rightarrow> real \<Rightarrow> rendererState \<Rightarrow> rendererState" where
  "setClearColor col alpha r = r\<lparr>clearColor := col, clearAlpha := alpha\<rparr>"

section \<open>Rendering one frame (\<open>renderFrame\<close>)\<close>

record originals =
  originalSize :: "real \<times> real"
  originalClearColor :: nat
  originalClearAlpha :: real
  originalBackgroundColor :: "backgroundValue option"
  originalPixelRatio :: real
  originalCameraPosition :: vec3
  originalCameraRotation :: vec3
  originalCameraZoom :: real
  originalCameraAspect :: "real option"
  originalCameraFov :: "real option"
  originalCameraFar :: "real option"
  originalCameraNear :: "real option"
  originalCameraLeft :: "real option"
  originalCameraRight :: "real option"
  originalCameraTop :: "real option"
  originalCameraBottom :: "real option"

definition takeOriginals :: "renderContext \<Rightarrow> originals" where
  \<comment> \<open>The declarations before \<open>try\<close>; a field oLeft \<open>undefined\<close> is \<open>None\<close>.\<close>
  "takeOriginals c =
     (let common =
            \<lparr>originalSize = (sizeWidth (renderer c), sizeHeight (renderer c)),
             originalClearColor = clearColor (renderer c),
             originalClearAlpha = clearAlpha (renderer c),
             originalBackgroundColor = background (scene c),
             originalPixelRatio = pixelRatio (renderer c),
             originalCameraPosition = position (camera c),
             originalCameraRotation = rotation (camera c),
             originalCameraZoom = zoom (camera c),
             originalCameraAspect = None, originalCameraFov = None,
             originalCameraFar = None, originalCameraNear = None,
             originalCameraLeft = None, originalCameraRight = None,
             originalCameraTop = None, originalCameraBottom = None\<rparr>
      in case projection (camera c) of
           Perspective pAspect pFov cFar cNear \<Rightarrow>
             common\<lparr>originalCameraAspect := Some pAspect, originalCameraFov := Some pFov,
                    originalCameraFar := Some cFar, originalCameraNear := Some cNear\<rparr>
         | Orthographic oLeft oRight oTop oBottom cFar cNear \<Rightarrow>
             common\<lparr>originalCameraLeft := Some oLeft, originalCameraRight := Some oRight,
                    originalCameraTop := Some oTop, originalCameraBottom := Some oBottom,
                    originalCameraFar := Some cFar, originalCameraNear := Some cNear\<rparr>
         | OtherCamera \<Rightarrow> common)"

definition fitProjection :: "int \<Rightarrow> int \<Rightarrow> projection \<Rightarrow> projection" where
  \<comment> \<open>The camera update for the export aspect ratio. With \<open>height = 0\<close> the ratio is not
      finite in the program; the field then holds HOL's value until it is restored.\<close>
  "fitProjection width height pr =
     (let aspectRatio = real_of_int width / real_of_int height
      in case pr of
           Perspective pAspect pFov cFar cNear \<Rightarrow> Perspective aspectRatio pFov cFar cNear
         | Orthographic oLeft oRight oTop oBottom cFar cNear \<Rightarrow>
             (let currentHeight = oTop - oBottom;
                  currentWidth = oRight - oLeft;
                  newWidth = currentHeight * aspectRatio;
                  widthDiff = newWidth - currentWidth
              in Orthographic (oLeft - widthDiff / 2) (oRight + widthDiff / 2) oTop oBottom cFar cNear)
         | OtherCamera \<Rightarrow> OtherCamera)"

datatype stage =
    SetSize | SetPixelRatio | SetClearColor | ClearBackground | FitCamera
  | ResizeComposer | Render | CreateCanvas | DrawImage | ToDataURL

definition tryStages :: "stage list" where
  \<comment> \<open>The statements of the \<open>try\<close> block that call into the libraries, in program order.\<close>
  "tryStages =
     [SetSize, SetPixelRatio, SetClearColor, ClearBackground, FitCamera,
      ResizeComposer, Render, CreateCanvas, DrawImage, ToDataURL]"

record environment =
  throwsAt :: "stage \<Rightarrow> string option"
  context2d :: bool
  imageLoads :: bool

text \<open>
  What the surroundings decide: \<open>throwsAt st = Some msg\<close> when the library call of stage
  \<open>st\<close> raises an error with message \<open>msg\<close> for a reason outside the model (a lost
  WebGL context, say); \<open>context2d\<close> when \<open>getContext('2d')\<close> gives a context;
  \<open>imageLoads\<close> when the image made from the data URL fires \<open>onload\<close>, the only
  event on which \<open>verifyImageDimensions\<close> resolves its promise. One error is not left
  to the surroundings: \<open>drawImage\<close> raises \<open>InvalidStateError\<close> whenever the canvas it
  reads from, here the renderer's, has a width or a height of zero.
\<close>

definition stageEffect :: "int \<Rightarrow> int \<Rightarrow> stage \<Rightarrow> renderContext \<Rightarrow> renderContext" where
  "stageEffect width height st c =
     (case st of
        SetSize \<Rightarrow> c\<lparr>renderer := setSize (real_of_int width) (real_of_int height) (renderer c)\<rparr>
      | SetPixelRatio \<Rightarrow> c\<lparr>renderer := setPixelRatio 1 (renderer c)\<rparr>
      | SetClearColor \<Rightarrow> c\<lparr>renderer := setClearColor 0 0 (renderer c)\<rparr>
      | ClearBackground \<Rightarrow> c\<lparr>scene := (scene c)\<lparr>background := None\<rparr>\<rparr>
      | FitCamera \<Rightarrow>
          c\<lparr>camera := (camera c)\<lparr>projection := fitProjection width height (projection (camera c))\<rparr>\<rparr>
      | ResizeComposer \<Rightarrow>
          (case composer c of
             None \<Rightarrow> c
           | Some _ \<Rightarrow> c\<lparr>composer := Some (real_of_int width, real_of_int height)\<rparr>)
      | Render \<Rightarrow> c\<lparr>renderCalls := Suc (renderCalls c)\<rparr>
      | CreateCanvas \<Rightarrow> c
      | DrawImage \<Rightarrow> c
      | ToDataURL \<Rightarrow> c)"

fun runStages ::
  "environment \<Rightarrow> int \<Rightarrow> int \<Rightarrow> stage list \<Rightarrow> renderContext \<Rightarrow> string option \<times> renderContext" where
  "runStages ev width height [] c = (None, c)"
| "runStages ev width height (st # rest) c =
     (case throwsAt ev st of
        Some msg \<Rightarrow> (Some msg, c)
      | None \<Rightarrow>
          (if st = CreateCanvas
           then (if context2d ev
                 then runStages ev width height rest (stageEffect width height st c)
                 else (Some ''Could not get 2D context for export canvas'', c))
           else if st = DrawImage
           then (if canvasWidth (renderer c) = 0 then (Some ''InvalidStateError'', c)
                 else if canvasHeight (renderer c) = 0 then (Some ''InvalidStateError'', c)
                 else runStages ev width height rest (stageEffect width height st c))
           else runStages ev width height rest (stageEffect width height st c)))"

record exportImage =
  imageWidth :: int
  imageHeight :: int
  sourceRect :: "(int \<times> int \<times> int \<times> int) option"

text \<open>
  The image behind the data URL: the size of the export canvas (\<open>exportCanvas.width = width\<close>
  and \<open>exportCanvas.height = height\<close>, as canvas attributes) and the rectangle of the
  renderer's canvas drawn into it.
\<close>

definition cropSource :: "int \<Rightarrow> int \<Rightarrow> int \<Rightarrow> int \<Rightarrow> (int \<times> int \<times> int \<times> int) option" where
  \<comment> \<open>The source rectangle \<open>(sourceX, sourceY, sourceWidth, sourceHeight)\<close> given to
      \<open>drawImage\<close>; \<open>None\<close> when a quotient on the way is not finite.\<close>
  "cropSource rendererCanvasWidth rendererCanvasHeight width height =
     (if rendererCanvasHeight = 0 then None
      else if height = 0 then None
      else
        (let rendererAspect = real_of_int rendererCanvasWidth / real_of_int rendererCanvasHeight;
             targetAspect = real_of_int width / real_of_int height
         in if \<bar>rendererAspect - targetAspect\<bar> > 1 / 100
            then (if rendererAspect > targetAspect
                  then (let sourceWidth = js_round (real_of_int rendererCanvasHeight * targetAspect)
                        in Some (js_round (real_of_int (rendererCanvasWidth - sourceWidth) / 2), 0,
                                 sourceWidth, rendererCanvasHeight))
                  else if targetAspect = 0 then None
                  else (let sourceHeight = js_round (real_of_int rendererCanvasWidth / targetAspect)
                        in Some (0, js_round (real_of_int (rendererCanvasHeight - sourceHeight) / 2),
                                 rendererCanvasWidth, sourceHeight)))
            else Some (0, 0, rendererCanvasWidth, rendererCanvasHeight)))"

datatype outcome = Returned exportImage | Raised string | Suspended

text \<open>
  How a call ends: it returns the image, it raises an error with a message, or it never
  settles (\<open>Suspended\<close>: the promise awaited in the \<open>try\<close> block is never resolved, so
  neither the rest of the block nor the \<open>finally\<close> block runs).
\<close>

definition tryBlock :: "environment \<Rightarrow> int \<Rightarrow> int \<Rightarrow> renderContext \<Rightarrow> outcome \<times> renderContext" where
  "tryBlock ev width height c =
     (case runStages ev width height tryStages c of
        (Some msg, c') \<Rightarrow> (Raised msg, c')
      | (None, c') \<Rightarrow>
          (if imageLoads ev
           then (Returned \<lparr>imageWidth = canvasAttr 300 width, imageHeight = canvasAttr 150 height,
                            sourceRect = cropSource (canvasWidth (renderer c'))
                                           (canvasHeight (renderer c')) width height\<rparr>, c')
           else (Suspended, c')))"

definition restoreProjection :: "originals \<Rightarrow> projection \<Rightarrow> projection" where
  \<comment> \<open>The two guarded branches at the end of \<open>finally\<close>. The declarations fill the four
      (six) fields of a camera class together, so no other pattern arises.\<close>
  "restoreProjection orig pr =
     (case pr of
        Perspective _ _ _ _ \<Rightarrow>
          (case (originalCameraAspect orig, originalCameraFov orig,
                 originalCameraFar orig, originalCameraNear orig) of
             (Some pAspect, Some pFov, Some cFar, Some cNear) \<Rightarrow> Perspective pAspect pFov cFar cNear
           | _ \<Rightarrow> pr)
      | Orthographic _ _ _ _ _ _ \<Rightarrow>
          (case (originalCameraLeft orig, originalCameraRight orig, originalCameraTop orig,
                 originalCameraBottom orig, originalCameraFar orig, originalCameraNear orig) of
             (Some oLeft, Some oRight, Some oTop, Some oBottom, Some cFar, Some cNear) \<Rightarrow>
               Orthographic oLeft oRight oTop oBottom cFar cNear
           | _ \<Rightarrow> pr)
      | OtherCamera \<Rightarrow> pr)"

definition finallyBlock :: "originals \<Rightarrow> renderContext \<Rightarrow> renderContext" where
  "finallyBlock orig c =
     (let r1 = setSize (fst (originalSize orig)) (snd (originalSize orig)) (renderer c);
          r2 = setClearColor (originalClearColor orig) (originalClearAlpha orig) r1;
          r3 = setPixelRatio (originalPixelRatio orig) r2;
          cam = (camera c)\<lparr>position := originalCameraPosition orig,
                           rotation := originalCameraRotation orig,
                           zoom := originalCameraZoom orig,
                           projection := restoreProjection orig (projection (camera c))\<rparr>
      in c\<lparr>renderer := r3,
           scene := (scene c)\<lparr>background := originalBackgroundColor orig\<rparr>,
           camera := cam,
           composer := (case composer c of None \<Rightarrow> None | Some _ \<Rightarrow> Some (originalSize orig))\<rparr>)"

definition renderFrame ::
  "environment \<Rightarrow> int \<Rightarrow> int \<Rightarrow> int \<Rightarrow> renderContext \<Rightarrow> outcome \<times> renderContext" where
  \<comment> \<open>\<open>width\<close> and \<open>height\<close> are the hook's export size; \<open>frameIndex\<close> is not used by the body.\<close>
  "renderFrame ev width height frameIndex c =
     (let orig = takeOriginals c
      in case tryBlock ev width height c of
           (Suspended, c') \<Rightarrow> (Suspended, c')
         | (Returned img, c') \<Rightarrow> (Returned img, finallyBlock orig c')
         | (Raised msg, c') \<Rightarrow> (Raised msg, finallyBlock orig c'))"

datatype cameraClass = PerspectiveCamera | OrthographicCamera | PlainCamera

definition classOf :: "projection \<Rightarrow> cameraClass" where
  \<comment> \<open>What the tests \<open>camera instanceof THREE.PerspectiveCamera\<close> and
      \<open>camera instanceof THREE.OrthographicCamera\<close> tell.\<close>
  "classOf pr =
     (case pr of
        Perspective _ _ _ _ \<Rightarrow> PerspectiveCamera
      | Orthographic _ _ _ _ _ _ \<Rightarrow> OrthographicCamera
      | OtherCamera \<Rightarrow> PlainCamera)"

section \<open>Exporting (\<open>exportFrame\<close>, \<open>exportSequence\<close>)\<close>

record toast =
  title :: string
  description :: string
  destructive :: bool

record journal =
  toasts :: "toast list"
  downloads :: "exportImage list"
  directories :: "string list"
  savedFiles :: "string list"
  mixerTimes :: "real option list"

text \<open>
  What an export leaves behind outside the render context: the notifications shown, the
  images offered for download, the directories made and the files saved (in order), and
  the times the animation mixer was set to.
\<close>

record page =
  canvas :: bool
  fiberRenderer :: "rendererState option"
  fiberScene :: "sceneState option"
  fiberCamera :: "cameraState option"
  effectComposer :: "(real \<times> real) option"
  renderCount :: nat
  journal :: journal

text \<open>
  \<open>canvas\<close>: \<open>document.querySelector("canvas")\<close> finds an element. The three handles
  are \<open>canvas.__r3f?.fiber?.renderer\<close>, \<open>\<dots>scene\<close> and \<open>\<dots>camera\<close>, \<open>None\<close> while the
  viewport has not set them.
\<close>

definition fiber :: "page \<Rightarrow> renderContext option" where
  \<comment> \<open>The guard \<open>!renderer || !scene || !camera\<close>: \<open>None\<close> when one of them is missing.\<close>
  "fiber p =
     (case fiberRenderer p of
        None \<Rightarrow> None
      | Some r \<Rightarrow>
          (case fiberScene p of
             None \<Rightarrow> None
           | Some s \<Rightarrow>
               (case fiberCamera p of
                  None \<Rightarrow> None
                | Some cam \<Rightarrow>
                    Some \<lparr>renderer = r, scene = s, camera = cam,
                          composer = effectComposer p, renderCalls = renderCount p\<rparr>)))"

definition putBack :: "renderContext \<Rightarrow> page \<Rightarrow> page" where
  \<comment> \<open>The objects are shared: what a render did to them is what the page holds afterwards.\<close>
  "putBack c p =
     p\<lparr>fiberRenderer := Some (renderer c), fiberScene := Some (scene c),
       fiberCamera := Some (camera c), effectComposer := composer c,
       renderCount := renderCalls c\<rparr>"

definition notify :: "string \<Rightarrow> string \<Rightarrow> bool \<Rightarrow> journal \<Rightarrow> journal" where
  "notify ttl descr destr j =
     j\<lparr>toasts := toasts j @ [\<lparr>title = ttl, description = descr, destructive = destr\<rparr>]\<rparr>"

datatype completion = Settled | Rejected string | Pending

definition exportFrame :: "environment \<Rightarrow> int \<Rightarrow> int \<Rightarrow> page \<Rightarrow> completion \<times> page" where
  "exportFrame ev width height p =
     (if canvas p
      then (case fiber p of
              None \<Rightarrow>
                (Settled, p\<lparr>journal := notify ''Error'' ''Could not access the 3D scene'' True (journal p)\<rparr>)
            | Some c \<Rightarrow>
                (case renderFrame ev width height 0 c of
                   (Returned img, c') \<Rightarrow>
                     (Settled,
                      (putBack c' p)\<lparr>journal :=
                         notify ''Success'' ''Frame exported successfully with effects applied'' False
                           ((journal p)\<lparr>downloads := downloads (journal p) @ [img]\<rparr>)\<rparr>)
                 | (Raised msg, c') \<Rightarrow>
                     (Settled,
                      (putBack c' p)\<lparr>journal :=
                         notify ''Error'' (''Failed to export frame: '' @ msg) True (journal p)\<rparr>)
                 | (Suspended, c') \<Rightarrow> (Pending, putBack c' p)))
      else (Rejected ''TypeError'', p))"

record fileApi =
  createDirectory :: "string \<Rightarrow> bool"
  saveFile :: "string \<Rightarrow> exportImage \<Rightarrow> bool"

record host =
  electron :: "fileApi option"
  electronAPI :: "fileApi option"

text \<open>
  \<open>window.electron\<close> and \<open>window.electronAPI\<close>, each present with both of its
  functions or counted as absent; \<open>saveFile\<close> of the second stands for its
  \<open>saveImageFile\<close>.
\<close>

definition createVia :: "host \<Rightarrow> string \<Rightarrow> bool" where
  "createVia hst folder =
     (let fallback = (case electronAPI hst of None \<Rightarrow> False | Some api \<Rightarrow> createDirectory api folder)
      in case electron hst of
           None \<Rightarrow> fallback
         | Some api \<Rightarrow> if createDirectory api folder then True else fallback)"

definition saveVia :: "host \<Rightarrow> string \<Rightarrow> exportImage \<Rightarrow> bool" where
  "saveVia hst filename img =
     (let fallback = (case electronAPI hst of None \<Rightarrow> False | Some api \<Rightarrow> saveFile api filename img)
      in case electron hst of
           None \<Rightarrow> fallback
         | Some api \<Rightarrow> if saveFile api filename img then True else fallback)"

record viewportProps =
  mixerClipDuration :: "real option"
  viewportTotalFrames :: int

text \<open>
  The viewport as the listener sees it: the duration of the clip of the current
  animation when the mixer, the model and the clip are all there, and the component's
  own \<open>totalFrames\<close>.
\<close>

definition dispatchFrameChange ::
  "viewportProps \<Rightarrow> int \<Rightarrow> int \<Rightarrow> renderContext \<times> journal \<Rightarrow> renderContext \<times> journal" where
  \<comment> \<open>\<open>window.dispatchEvent(frameEvent)\<close>: the listener sets the mixer time and renders once.\<close>
  "dispatchFrameChange vp frame eventTotalFrames cj =
     (case cj of (c, j) \<Rightarrow>
        (case mixerClipDuration vp of
           None \<Rightarrow> (c, j)
         | Some d \<Rightarrow>
             (c\<lparr>renderCalls := Suc (renderCalls c)\<rparr>,
              j\<lparr>mixerTimes := mixerTimes j @
                   [handleFrameChange d frame eventTotalFrames (viewportTotalFrames vp)]\<rparr>)))"

definition frameFile :: "string \<Rightarrow> int \<Rightarrow> string" where
  "frameFile animationFolder frameIndex =
     animationFolder @ ''/frame_'' @ padStart 4 CHR ''0'' (toString frameIndex) @ ''.png''"

fun exportFrames ::
  "environment \<Rightarrow> host \<Rightarrow> viewportProps \<Rightarrow> int \<Rightarrow> int \<Rightarrow> string \<Rightarrow> int \<Rightarrow> nat \<Rightarrow> nat \<Rightarrow>
   int list \<Rightarrow> renderContext \<times> journal \<Rightarrow> completion \<times> renderContext \<times> journal" where
  "exportFrames ev hst vp width height animationFolder frameTotal n i [] cj = (Settled, cj)"
| "exportFrames ev hst vp width height animationFolder frameTotal n i (frameIndex # rest) cj =
     (case dispatchFrameChange vp frameIndex frameTotal cj of
        (c1, j1) \<Rightarrow>
          (case renderFrame ev width height frameIndex c1 of
             (Suspended, c2) \<Rightarrow> (Pending, c2, j1)
           | (Raised msg, c2) \<Rightarrow> (Rejected msg, c2, j1)
           | (Returned img, c2) \<Rightarrow>
               (let filename = frameFile animationFolder frameIndex
                in if saveVia hst filename img
                   then exportFrames ev hst vp width height animationFolder frameTotal n (Suc i) rest
                          (c2, notify ''Export Progress''
                                 (''Frame '' @ toString (int (Suc i)) @ ''/'' @ toString (int n)
                                    @ '' exported with effects'') False
                                 (j1\<lparr>savedFiles := savedFiles j1 @ [filename]\<rparr>))
                   else (Rejected (''Failed to save file: '' @ filename), c2, j1))))"

text \<open>
  The loop over \<open>framesToRender\<close>: \<open>n\<close> is its length and \<open>i\<close> the position reached.
  \<open>Rejected\<close> is an error raised inside the \<open>try\<close> block of \<open>exportSequence\<close>.
\<close>

definition exportSequence ::
  "environment \<Rightarrow> host \<Rightarrow> viewportProps \<Rightarrow> int \<Rightarrow> int \<Rightarrow> int \<Rightarrow> string option \<Rightarrow>
   string option \<Rightarrow> int \<Rightarrow> page \<Rightarrow> completion \<times> page" where
  "exportSequence ev hst vp width height renderSteps outputFolder currentAnim frameTotal p =
     (case truthy outputFolder of
        None \<Rightarrow>
          (Settled, p\<lparr>journal := notify ''Error'' ''Please select an output folder first'' True (journal p)\<rparr>)
      | Some folder \<Rightarrow>
     (case truthy currentAnim of
        None \<Rightarrow> (Settled, p\<lparr>journal := notify ''Error'' ''No animation selected'' True (journal p)\<rparr>)
      | Some animation \<Rightarrow>
     (if electron hst = None \<and> electronAPI hst = None
      then (Settled, p\<lparr>journal := notify ''Error'' ''File system access is not available'' True (journal p)\<rparr>)
      else if canvas p
      then
     (case fiber p of
        None \<Rightarrow>
          (Settled, p\<lparr>journal := notify ''Error'' ''Could not access the 3D scene'' True (journal p)\<rparr>)
      | Some c \<Rightarrow>
          (let animationFolder = folder @ ''/'' @ animation
           in if createVia hst animationFolder
              then
                (let frames = framesToRender frameTotal renderSteps;
                     n = length frames;
                     j0 = notify ''Export Started''
                            (''Exporting '' @ toString (int n) @ '' frames with effects applied...'') False
                            ((journal p)\<lparr>directories := directories (journal p) @ [animationFolder]\<rparr>)
                 in case exportFrames ev hst vp width height animationFolder frameTotal n 0 frames (c, j0) of
                      (Settled, c', j') \<Rightarrow>
                        (Settled,
                         (putBack c' p)\<lparr>journal :=
                            notify ''Export Complete''
                              (toString (int n) @ '' frames exported with effects to '' @ animationFolder)
                              False j'\<rparr>)
                    | (Rejected msg, c', j') \<Rightarrow>
                        (Settled,
                         (putBack c' p)\<lparr>journal :=
                            notify ''Error'' (''Failed to export sequence: '' @ msg) True j'\<rparr>)
                    | (Pending, c', j') \<Rightarrow> (Pending, (putBack c' p)\<lparr>journal := j'\<rparr>))
              else
                (Settled,
                 p\<lparr>journal :=
                      notify ''Error''
                        (''Failed to export sequence: Failed to create directory: '' @ animationFolder)
                        True (journal p)\<rparr>)))
      else (Rejected ''TypeError'', p))))"

section \<open>Sample inputs\<close>

definition quietEnvironment :: environment where
  \<comment> \<open>No library call raises, the 2D context exists, the image loads.\<close>
  "quietEnvironment = \<lparr>throwsAt = (\<lambda>_. None), context2d = True, imageLoads = True\<rparr>"

definition sampleCamera :: cameraState where
  "sampleCamera =
     \<lparr>position = (5, 5, 5), rotation = (0, 0, 0), zoom = 1,
      projection = Orthographic (- 8) 8 5 (- 5) 1000 (1 / 10)\<rparr>"

definition sampleRenderer :: rendererState where
  "sampleRenderer =
     \<lparr>sizeWidth = 800, sizeHeight = 600, pixelRatio = 2, clearColor = 1184274, clearAlpha = 1,
      canvasWidth = 1600, canvasHeight = 1200\<rparr>"

definition sampleContext :: renderContext where
  "sampleContext =
     \<lparr>renderer = sampleRenderer, scene = \<lparr>background = Some (BackgroundColor 1184274)\<rparr>,
      camera = sampleCamera, composer = Some (800, 600), renderCalls = 0\<rparr>"

definition emptyJournal :: journal where
  "emptyJournal = \<lparr>toasts = [], downloads = [], directories = [], savedFiles = [], mixerTimes = []\<rparr>"

definition samplePage :: page where
  "samplePage =
     \<lparr>canvas = True, fiberRenderer = Some sampleRenderer,
      fiberScene = Some \<lparr>background = Some (BackgroundColor 1184274)\<rparr>,
      fiberCamera = Some sampleCamera, effectComposer = Some (800, 600), renderCount = 0,
      journal = emptyJournal\<rparr>"

definition blankPage :: page where
  \<comment> \<open>The canvas is there, the viewport has not yet set renderer, scene and camera.\<close>
  "blankPage =
     \<lparr>canvas = True, fiberRenderer = None, fiberScene = None, fiberCamera = None,
      effectComposer = None, renderCount = 0, journal = emptyJournal\<rparr>"

definition workingHost :: host where
  \<comment> \<open>Every directory can be made and every file saved.\<close>
  "workingHost =
     \<lparr>electron = Some \<lparr>createDirectory = (\<lambda>_. True), saveFile = (\<lambda>_ _. True)\<rparr>, electronAPI = None\<rparr>"

definition sampleViewport :: viewportProps where
  "sampleViewport = \<lparr>mixerClipDuration = Some 2, viewportTotalFrames = 60\<rparr>"

section \<open>Frame sampling: the source loop against the specification\<close>

lemma filter_upto_skip:
  assumes "\<forall>j. a \<le> j \<and> j < c \<longrightarrow> \<not> P j" and "a \<le> c"
  shows "filter P [a..b] = filter P [c..(b::int)]"
proof (cases "c \<le> b")
  case True
  with assms(2) have "[a..b] = [a..c - 1] @ [c..b]" by (rule upto_split1)
  moreover have "filter P [a..c - 1] = []" using assms(1) by (auto simp: filter_empty_conv)
  ultimately show ?thesis by simp
next
  case False
  then have "filter P [a..b] = []" using assms(1) by (auto simp: filter_empty_conv)
  moreover from False have "[c..b] = []" by simp
  ultimately show ?thesis by simp
qed

lemma sampleFrom_filter:
  "1 \<le> step \<Longrightarrow> i mod step = 0 \<Longrightarrow>
   sampleFrom i step tf = filter (\<lambda>j. j mod step = 0) [i..tf - 1]"
proof (induction i step tf rule: sampleFrom.induct)
  case (1 i step tf)
  show ?case
  proof (cases "i < tf")
    case True
    have next_mult: "(i + step) mod step = 0" using "1.prems" by simp
    have gap: "\<forall>j. i + 1 \<le> j \<and> j < i + step \<longrightarrow> \<not> (j mod step = 0)"
    proof (intro allI impI notI)
      fix j assume j: "i + 1 \<le> j \<and> j < i + step" and m: "j mod step = 0"
      from "1.prems" m have "step dvd j" "step dvd i" by (simp_all add: mod_eq_0_iff_dvd)
      then have "step dvd (j - i)" by (rule dvd_diff)
      moreover from j have "0 < j - i" "j - i < step" by auto
      ultimately show False using zdvd_not_zless by blast
    qed
    have "sampleFrom i step tf = i # sampleFrom (i + step) step tf"
      using True "1.prems"(1) by (simp add: sampleFrom.simps[of i])
    also have "sampleFrom (i + step) step tf = filter (\<lambda>j. j mod step = 0) [i + step..tf - 1]"
      using "1.IH" True "1.prems"(1) next_mult by simp
    also have "\<dots> = filter (\<lambda>j. j mod step = 0) [i + 1..tf - 1]"
      using filter_upto_skip[OF gap, of "tf - 1"] "1.prems"(1) by simp
    finally show ?thesis using True "1.prems"(2) by (simp add: upto_rec1[of i])
  next
    case False
    then show ?thesis by (simp add: sampleFrom.simps[of i])
  qed
qed

lemma last_filter_upto:
  assumes "a \<le> b" "P b" shows "last (filter P [a..b]) = (b::int)"
proof -
  have "[a..b] = [a..b - 1] @ [b]" using assms(1) by (rule upto_rec2)
  then have "filter P [a..b] = filter P [a..b - 1] @ [b]" using assms(2) by simp
  then show ?thesis by simp
qed

lemma multiples_nonempty:
  assumes "1 \<le> tf"
  shows "filter (\<lambda>j. j mod s = 0) [0..tf - 1] \<noteq> []"
proof -
  have "(0::int) \<in> set (filter (\<lambda>j. j mod s = 0) [0..tf - 1])" using assms by simp
  then show ?thesis by (metis empty_iff list.set(1))
qed

lemma framesToRender_spec:
  assumes "1 \<le> tf" "1 \<le> rs"
  shows "framesToRender tf rs = specFrames tf rs"
proof -
  let ?s = "max 1 (tf div rs)"
  have s: "sampleFrom 0 ?s tf = filter (\<lambda>j. j mod ?s = 0) [0..tf - 1]"
    by (rule sampleFrom_filter) simp_all
  have ne: "filter (\<lambda>j. j mod ?s = 0) [0..tf - 1] \<noteq> []"
    using assms(1) by (rule multiples_nonempty)
  have r: "rs \<noteq> 0" using assms(2) by simp
  show ?thesis unfolding framesToRender_def specFrames_def Let_def s
    using ne r by simp
qed

lemma multiples_below_last:
  assumes "1 \<le> tf"
    and "last (filter (\<lambda>j. j mod s = 0) [0..tf - 1]) \<noteq> tf - 1"
    and "x \<in> set (filter (\<lambda>j. j mod s = 0) [0..tf - 1])"
  shows "x < tf - 1"
proof -
  have "x \<le> tf - 1" using assms(3) by simp
  moreover have "x \<noteq> tf - 1"
  proof
    assume e: "x = tf - 1"
    with assms(3) have m: "(tf - 1) mod s = 0" by simp
    have nn: "0 \<le> tf - 1" using assms(1) by simp
    have "last (filter (\<lambda>j. j mod s = 0) [0..tf - 1]) = tf - 1"
      using last_filter_upto[of 0 "tf - 1" "\<lambda>j. j mod s = 0", OF nn] m by simp
    with assms(2) show False by simp
  qed
  ultimately show ?thesis by simp
qed

lemma specFrames_sorted:
  assumes "1 \<le> tf"
  shows "sorted_wrt (<) (specFrames tf rs)"
proof -
  let ?s = "max 1 (tf div rs)"
  let ?ms = "filter (\<lambda>j. j mod ?s = 0) [0..tf - 1]"
  have srt: "sorted_wrt (<) ?ms" by (rule sorted_wrt_filter) (rule sorted_wrt_upto)
  show ?thesis
  proof (cases "last ?ms = tf - 1")
    case False
    then have "\<forall>x\<in>set ?ms. x < tf - 1"
      using multiples_below_last[OF assms] by blast
    then have "sorted_wrt (<) (?ms @ [tf - 1])"
      using srt by (simp add: sorted_wrt_append)
    then show ?thesis using False unfolding specFrames_def Let_def by simp
  next
    case True
    then show ?thesis using srt unfolding specFrames_def Let_def by simp
  qed
qed

lemma specFrames_set:
  assumes "1 \<le> tf"
  shows "set (specFrames tf rs) =
     {i. 0 \<le> i \<and> i < tf \<and> i mod max 1 (tf div rs) = 0} \<union> {tf - 1}"
proof -
  let ?s = "max 1 (tf div rs)"
  let ?ms = "filter (\<lambda>j. j mod ?s = 0) [0..tf - 1]"
  have ne: "?ms \<noteq> []" using assms by (rule multiples_nonempty)
  have ms: "set ?ms = {i. 0 \<le> i \<and> i < tf \<and> i mod ?s = 0}" by auto
  show ?thesis
  proof (cases "last ?ms = tf - 1")
    case False
    then have "specFrames tf rs = ?ms @ [tf - 1]"
      unfolding specFrames_def Let_def by simp
    then show ?thesis using ms by simp
  next
    case True
    then have e: "specFrames tf rs = ?ms"
      unfolding specFrames_def Let_def by simp
    from True have "tf - 1 \<in> set ?ms" using last_in_set[OF ne] by simp
    then have "set ?ms = set ?ms \<union> {tf - 1}" by blast
    then show ?thesis unfolding e ms .
  qed
qed

lemma framesToRender_100_7: "framesToRender 100 7 = [0, 14, 28, 42, 56, 70, 84, 98, 99]"
  by (simp add: framesToRender_def sampleFrom.simps)

lemma framesToRender_5_12: "framesToRender 5 12 = [0, 1, 2, 3, 4]"
  by (simp add: framesToRender_def sampleFrom.simps)

lemma framesToRender_100_1: "framesToRender 100 1 = [0, 99]"
  by (simp add: framesToRender_def sampleFrom.simps)

lemma framesToRender_60_1: "framesToRender 60 1 = [0, 59]"
  by (simp add: framesToRender_def sampleFrom.simps)

lemma framesToRender_60_2: "framesToRender 60 2 = [0, 30, 59]"
  by (simp add: framesToRender_def sampleFrom.simps)

text \<open>
  C2. For \<open>totalFrames \<ge> 1\<close> and \<open>renderSteps \<ge> 1\<close> the frames sampled by
  \<open>exportSequence\<close> are the multiples of \<open>stride = max(1, floor(totalFrames / renderSteps))\<close>
  below \<open>totalFrames\<close>, with \<open>totalFrames - 1\<close> appended when the last multiple is another
  index; the list is strictly ascending. For 100 frames and 7 render steps it is
  0, 14, 28, 42, 56, 70, 84, 98, 99, and for 5 frames and 12 render steps 0, 1, 2, 3, 4.
\<close>

theorem framesToRender_sampling:
  assumes "1 \<le> frameTotal" and "1 \<le> renderSteps"
  shows "framesToRender frameTotal renderSteps = specFrames frameTotal renderSteps
    \<and> set (framesToRender frameTotal renderSteps) =
        {i. 0 \<le> i \<and> i < frameTotal \<and> i mod max 1 (frameTotal div renderSteps) = 0}
          \<union> {frameTotal - 1}
    \<and> sorted_wrt (<) (framesToRender frameTotal renderSteps)
    \<and> framesToRender 100 7 = [0, 14, 28, 42, 56, 70, 84, 98, 99]
    \<and> framesToRender 5 12 = [0, 1, 2, 3, 4]"
proof -
  have e: "framesToRender frameTotal renderSteps = specFrames frameTotal renderSteps"
    using assms by (rule framesToRender_spec)
  show ?thesis unfolding e
    using specFrames_set[OF assms(1), of renderSteps] specFrames_sorted[OF assms(1), of renderSteps]
      framesToRender_100_7 framesToRender_5_12 by simp
qed

theorem framesToRender_sampling_witness:
  "(1::int) \<le> 10 \<and> (1::int) \<le> 3
   \<and> framesToRender 10 3 = specFrames 10 3
   \<and> set (framesToRender 10 3) = {i. 0 \<le> i \<and> i < 10 \<and> i mod max 1 (10 div 3) = 0} \<union> {10 - 1}
   \<and> sorted_wrt (<) (framesToRender 10 3)
   \<and> framesToRender 10 3 = [0, 3, 6, 9]"
proof -
  have a: "(1::int) \<le> 10" and b: "(1::int) \<le> 3" by simp_all
  have v: "framesToRender 10 3 = [0, 3, 6, 9]"
    by (simp add: framesToRender_def sampleFrom.simps)
  note t = framesToRender_sampling[OF a b]
  from t have t1: "framesToRender 10 3 = specFrames 10 3" by (rule conjunct1)
  from t have t2: "set (framesToRender 10 3) =
      {i. 0 \<le> i \<and> i < 10 \<and> i mod max 1 (10 div 3) = 0} \<union> {10 - 1}"
    by (rule conjunct1[OF conjunct2])
  from t have t3: "sorted_wrt (<) (framesToRender 10 3)"
    by (rule conjunct1[OF conjunct2[OF conjunct2]])
  show ?thesis by (intro conjI a b t1 t2 t3 v)
qed

text \<open>
  C7. The claim: for fixed \<open>totalFrames\<close>, a larger \<open>renderSteps\<close> never exports more
  frames. The program at 100 frames: 2 frames for \<open>renderSteps = 1\<close>, 9 frames for
  \<open>renderSteps = 7\<close>.
\<close>

theorem framesToRender_count_grows:
  "length (framesToRender 100 1) = 2 \<and> length (framesToRender 100 7) = 9"
  by (simp add: framesToRender_100_1 framesToRender_100_7)

section \<open>\<open>renderFrame\<close> leaves the live view as it found it\<close>

lemma stageEffect_camera:
  "position (camera (stageEffect w h st c)) = position (camera c)
   \<and> rotation (camera (stageEffect w h st c)) = rotation (camera c)
   \<and> zoom (camera (stageEffect w h st c)) = zoom (camera c)
   \<and> classOf (projection (camera (stageEffect w h st c))) = classOf (projection (camera c))"
  by (cases st; cases "projection (camera c)")
     (simp_all add: stageEffect_def fitProjection_def classOf_def Let_def split: option.splits)

lemma runStages_step:
  "runStages ev w h (st # rest) c = runStages ev w h rest (stageEffect w h st c)
   \<or> snd (runStages ev w h (st # rest) c) = c"
  by (simp split: option.splits)

lemma runStages_camera:
  "position (camera (snd (runStages ev w h sts c))) = position (camera c)
   \<and> rotation (camera (snd (runStages ev w h sts c))) = rotation (camera c)
   \<and> zoom (camera (snd (runStages ev w h sts c))) = zoom (camera c)
   \<and> classOf (projection (camera (snd (runStages ev w h sts c)))) = classOf (projection (camera c))"
proof (induction sts arbitrary: c)
  case Nil
  show ?case by simp
next
  case (Cons st rest)
  from runStages_step[of ev w h st rest c] show ?case
  proof
    assume "runStages ev w h (st # rest) c = runStages ev w h rest (stageEffect w h st c)"
    then show ?thesis
      using Cons.IH[of "stageEffect w h st c"] stageEffect_camera[of w h st c] by simp
  next
    assume "snd (runStages ev w h (st # rest) c) = c"
    then show ?thesis by simp
  qed
qed

lemma tryBlock_camera:
  "position (camera (snd (tryBlock ev w h c))) = position (camera c)
   \<and> rotation (camera (snd (tryBlock ev w h c))) = rotation (camera c)
   \<and> zoom (camera (snd (tryBlock ev w h c))) = zoom (camera c)
   \<and> classOf (projection (camera (snd (tryBlock ev w h c)))) = classOf (projection (camera c))"
proof -
  have "snd (tryBlock ev w h c) = snd (runStages ev w h tryStages c)"
    by (simp add: tryBlock_def split: prod.splits option.splits)
  then show ?thesis using runStages_camera[of ev w h tryStages c] by simp
qed

lemma finallyBlock_common:
  "sizeWidth (renderer (finallyBlock (takeOriginals c) c')) = sizeWidth (renderer c)
   \<and> sizeHeight (renderer (finallyBlock (takeOriginals c) c')) = sizeHeight (renderer c)
   \<and> pixelRatio (renderer (finallyBlock (takeOriginals c) c')) = pixelRatio (renderer c)
   \<and> clearColor (renderer (finallyBlock (takeOriginals c) c')) = clearColor (renderer c)
   \<and> clearAlpha (renderer (finallyBlock (takeOriginals c) c')) = clearAlpha (renderer c)
   \<and> background (scene (finallyBlock (takeOriginals c) c')) = background (scene c)
   \<and> position (camera (finallyBlock (takeOriginals c) c')) = position (camera c)
   \<and> rotation (camera (finallyBlock (takeOriginals c) c')) = rotation (camera c)
   \<and> zoom (camera (finallyBlock (takeOriginals c) c')) = zoom (camera c)"
  by (cases "projection (camera c)")
     (simp_all add: finallyBlock_def takeOriginals_def setSize_def setPixelRatio_def
        setClearColor_def Let_def)

lemma finallyBlock_projection:
  assumes "classOf (projection (camera c')) = classOf (projection (camera c))"
  shows "projection (camera (finallyBlock (takeOriginals c) c')) = projection (camera c)"
  using assms
  by (cases "projection (camera c)"; cases "projection (camera c')")
     (simp_all add: finallyBlock_def takeOriginals_def restoreProjection_def classOf_def Let_def)

lemma finallyBlock_renderCalls:
  "renderCalls (finallyBlock orig c) = renderCalls c"
  by (simp add: finallyBlock_def Let_def)

lemma renderFrame_cases:
  "renderFrame ev w h f c =
     (if fst (tryBlock ev w h c) = Suspended then (Suspended, snd (tryBlock ev w h c))
      else (fst (tryBlock ev w h c), finallyBlock (takeOriginals c) (snd (tryBlock ev w h c))))"
  by (simp add: renderFrame_def Let_def split: prod.splits outcome.splits)

lemma raisingRender:
  "fst (renderFrame (quietEnvironment\<lparr>throwsAt := (\<lambda>st. if st = Render then Some ''context lost'' else None)\<rparr>)
          128 64 0 sampleContext) = Raised ''context lost''"
  by (simp add: renderFrame_cases tryBlock_def tryStages_def quietEnvironment_def)

text \<open>
  C1. Whenever a call of \<open>renderFrame\<close> ends, by returning the image or by raising an
  error at any stage of its \<open>try\<close> block, the renderer's output size, pixel ratio, clear
  colour and clear alpha, the scene's background, and the camera's position, rotation,
  zoom and projection fields (aspect, fov, far, near of a perspective camera; left,
  right, top, bottom, far, near of an orthographic one) are what they were before the
  call.
\<close>

theorem renderFrame_restores:
  assumes "fst (renderFrame ev width height frameIndex c) \<noteq> Suspended"
  shows "sizeWidth (renderer (snd (renderFrame ev width height frameIndex c))) = sizeWidth (renderer c)
   \<and> sizeHeight (renderer (snd (renderFrame ev width height frameIndex c))) = sizeHeight (renderer c)
   \<and> pixelRatio (renderer (snd (renderFrame ev width height frameIndex c))) = pixelRatio (renderer c)
   \<and> clearColor (renderer (snd (renderFrame ev width height frameIndex c))) = clearColor (renderer c)
   \<and> clearAlpha (renderer (snd (renderFrame ev width height frameIndex c))) = clearAlpha (renderer c)
   \<and> background (scene (snd (renderFrame ev width height frameIndex c))) = background (scene c)
   \<and> position (camera (snd (renderFrame ev width height frameIndex c))) = position (camera c)
   \<and> rotation (camera (snd (renderFrame ev width height frameIndex c))) = rotation (camera c)
   \<and> zoom (camera (snd (renderFrame ev width height frameIndex c))) = zoom (camera c)
   \<and> projection (camera (snd (renderFrame ev width height frameIndex c))) = projection (camera c)"
proof -
  let ?c' = "snd (tryBlock ev width height c)"
  have ns: "fst (tryBlock ev width height c) \<noteq> Suspended"
    using assms by (simp add: renderFrame_cases split: if_splits)
  then have r: "snd (renderFrame ev width height frameIndex c) = finallyBlock (takeOriginals c) ?c'"
    by (simp add: renderFrame_cases)
  have k: "classOf (projection (camera ?c')) = classOf (projection (camera c))"
    using tryBlock_camera[of ev width height c] by simp
  show ?thesis unfolding r
    using finallyBlock_common[of c ?c'] finallyBlock_projection[OF k] by simp
qed

theorem renderFrame_restores_witness:
  "fst (renderFrame (quietEnvironment\<lparr>throwsAt := (\<lambda>st. if st = Render then Some ''context lost'' else None)\<rparr>)
          128 64 0 sampleContext) \<noteq> Suspended
   \<and> sizeWidth (renderer (snd (renderFrame
        (quietEnvironment\<lparr>throwsAt := (\<lambda>st. if st = Render then Some ''context lost'' else None)\<rparr>)
        128 64 0 sampleContext))) = 800
   \<and> pixelRatio (renderer (snd (renderFrame
        (quietEnvironment\<lparr>throwsAt := (\<lambda>st. if st = Render then Some ''context lost'' else None)\<rparr>)
        128 64 0 sampleContext))) = 2
   \<and> background (scene (snd (renderFrame
        (quietEnvironment\<lparr>throwsAt := (\<lambda>st. if st = Render then Some ''context lost'' else None)\<rparr>)
        128 64 0 sampleContext))) = Some (BackgroundColor 1184274)
   \<and> projection (camera (snd (renderFrame
        (quietEnvironment\<lparr>throwsAt := (\<lambda>st. if st = Render then Some ''context lost'' else None)\<rparr>)
        128 64 0 sampleContext))) = Orthographic (- 8) 8 5 (- 5) 1000 (1 / 10)"
proof -
  let ?ev = "quietEnvironment\<lparr>throwsAt := (\<lambda>st. if st = Render then Some ''context lost'' else None)\<rparr>"
  have h: "fst (renderFrame ?ev 128 64 0 sampleContext) \<noteq> Suspended"
    by (simp add: raisingRender)
  from renderFrame_restores[OF h] h show ?thesis
    by (simp add: sampleContext_def sampleRenderer_def sampleCamera_def)
qed

section \<open>Exports with no failure on the way\<close>

lemma runStages_zero:
  assumes "\<And>st. throwsAt ev st = None" and "context2d ev" and "w = 0 \<or> h = 0"
  shows "fst (runStages ev w h tryStages c) = Some ''InvalidStateError''"
  using assms
  by (auto simp: tryStages_def stageEffect_def setSize_def setPixelRatio_def setClearColor_def
      canvasAttr_def split: option.splits)

lemma runStages_nonzero:
  assumes "\<And>st. throwsAt ev st = None" and "context2d ev" and "w \<noteq> 0" and "h \<noteq> 0"
  shows "fst (runStages ev w h tryStages c) = None"
  using assms
  by (auto simp: tryStages_def stageEffect_def setSize_def setPixelRatio_def setClearColor_def
      canvasAttr_def split: option.splits)

lemma runStages_no_throw:
  assumes "\<And>st. throwsAt ev st = None"
  shows "renderCalls (snd (runStages ev w h tryStages c)) = Suc (renderCalls c)"
    and "sizeWidth (renderer (snd (runStages ev w h tryStages c))) = real_of_int w"
    and "sizeHeight (renderer (snd (runStages ev w h tryStages c))) = real_of_int h"
  using assms
  by (auto simp: tryStages_def stageEffect_def setSize_def setPixelRatio_def setClearColor_def
      split: option.splits)

lemma tryBlock_snd: "snd (tryBlock ev w h c) = snd (runStages ev w h tryStages c)"
  by (simp add: tryBlock_def split: prod.splits option.splits)

lemma tryBlock_quiet:
  assumes "\<And>st. throwsAt ev st = None" and "context2d ev" and "imageLoads ev"
    and "w \<noteq> 0" and "h \<noteq> 0"
  shows "\<exists>img. fst (tryBlock ev w h c) = Returned img"
proof -
  obtain e c' where r: "runStages ev w h tryStages c = (e, c')"
    by (cases "runStages ev w h tryStages c")
  with runStages_nonzero[OF assms(1,2,4,5), of c] have "e = None" by simp
  with r assms(3) show ?thesis by (simp add: tryBlock_def)
qed

lemma tryBlock_zero:
  assumes "\<And>st. throwsAt ev st = None" and "context2d ev" and "w = 0 \<or> h = 0"
  shows "fst (tryBlock ev w h c) = Raised ''InvalidStateError''"
proof -
  obtain e c' where r: "runStages ev w h tryStages c = (e, c')"
    by (cases "runStages ev w h tryStages c")
  with runStages_zero[OF assms, of c] have "e = Some ''InvalidStateError''" by simp
  with r show ?thesis by (simp add: tryBlock_def)
qed

lemma renderFrame_quiet:
  assumes "\<And>st. throwsAt ev st = None" and "context2d ev" and "imageLoads ev"
    and "w \<noteq> 0" and "h \<noteq> 0"
  shows "\<exists>img c'. renderFrame ev w h f c = (Returned img, c')"
proof -
  from tryBlock_quiet[OF assms, of c] obtain img where "fst (tryBlock ev w h c) = Returned img" ..
  then obtain c1 where "tryBlock ev w h c = (Returned img, c1)" by (cases "tryBlock ev w h c") simp
  then show ?thesis by (simp add: renderFrame_def)
qed

lemma renderFrame_renders:
  assumes "\<And>st. throwsAt ev st = None"
  shows "renderCalls (snd (renderFrame ev w h f c)) = Suc (renderCalls c)"
proof -
  have "renderCalls (snd (tryBlock ev w h c)) = Suc (renderCalls c)"
    using runStages_no_throw(1)[OF assms, of w h c] by (simp add: tryBlock_snd)
  then show ?thesis by (simp add: renderFrame_cases finallyBlock_renderCalls)
qed

lemma exportFrames_quiet:
  assumes "\<And>st. throwsAt ev st = None" and "context2d ev" and "imageLoads ev"
    and "w \<noteq> 0" and "h \<noteq> 0"
    and "\<And>filename img. saveVia hst filename img"
  shows "\<exists>c' j'. exportFrames ev hst vp w h folder tf n i frames (c, j) = (Settled, c', j')
           \<and> savedFiles j' = savedFiles j @ map (frameFile folder) frames
           \<and> mixerTimes j' = mixerTimes j @
                (case mixerClipDuration vp of
                   None \<Rightarrow> []
                 | Some d \<Rightarrow> map (\<lambda>fr. handleFrameChange d fr tf (viewportTotalFrames vp)) frames)"
proof (induction frames arbitrary: i c j)
  case Nil
  show ?case by (simp split: option.splits)
next
  case (Cons frameIndex rest)
  obtain c1 j1 where d: "dispatchFrameChange vp frameIndex tf (c, j) = (c1, j1)"
    by (cases "dispatchFrameChange vp frameIndex tf (c, j)")
  have s1: "savedFiles j1 = savedFiles j"
    using d by (auto simp: dispatchFrameChange_def split: option.splits)
  have m1: "mixerTimes j1 = mixerTimes j @
       (case mixerClipDuration vp of
          None \<Rightarrow> []
        | Some d \<Rightarrow> [handleFrameChange d frameIndex tf (viewportTotalFrames vp)])"
    using d by (auto simp: dispatchFrameChange_def split: option.splits)
  from renderFrame_quiet[OF assms(1-5), of frameIndex c1]
  obtain img c2 where r: "renderFrame ev w h frameIndex c1 = (Returned img, c2)" by blast
  let ?j2 = "notify ''Export Progress''
                 (''Frame '' @ toString (int (Suc i)) @ ''/'' @ toString (int n)
                    @ '' exported with effects'') False
                 (j1\<lparr>savedFiles := savedFiles j1 @ [frameFile folder frameIndex]\<rparr>)"
  have e: "exportFrames ev hst vp w h folder tf n i (frameIndex # rest) (c, j)
        = exportFrames ev hst vp w h folder tf n (Suc i) rest (c2, ?j2)"
    using d r assms(6) by (simp add: Let_def)
  have s2: "savedFiles ?j2 = savedFiles j @ [frameFile folder frameIndex]"
    by (simp add: notify_def s1)
  have m2: "mixerTimes ?j2 = mixerTimes j1"
    by (simp add: notify_def)
  from Cons.IH[of "Suc i" c2 ?j2] obtain c' j' where
    "exportFrames ev hst vp w h folder tf n (Suc i) rest (c2, ?j2) = (Settled, c', j')"
    "savedFiles j' = savedFiles ?j2 @ map (frameFile folder) rest"
    "mixerTimes j' = mixerTimes ?j2 @
                (case mixerClipDuration vp of
                   None \<Rightarrow> []
                 | Some d \<Rightarrow> map (\<lambda>fr. handleFrameChange d fr tf (viewportTotalFrames vp)) rest)"
    by blast
  then show ?case unfolding e s2 m2 m1 by (simp split: option.splits)
qed

lemma exportSequence_quiet:
  assumes "\<And>st. throwsAt ev st = None" and "context2d ev" and "imageLoads ev"
    and "w \<noteq> 0" and "h \<noteq> 0"
    and "\<And>filename img. saveVia hst filename img" and "createVia hst (folder @ ''/'' @ animation)"
    and "electron hst \<noteq> None \<or> electronAPI hst \<noteq> None"
    and "folder \<noteq> []" and "animation \<noteq> []" and "canvas p" and "fiber p = Some c"
  shows "savedFiles (journal (snd (exportSequence ev hst vp w h rs (Some folder) (Some animation) tf p)))
     = savedFiles (journal p) @ map (frameFile (folder @ ''/'' @ animation)) (framesToRender tf rs)
   \<and> mixerTimes (journal (snd (exportSequence ev hst vp w h rs (Some folder) (Some animation) tf p)))
     = mixerTimes (journal p) @
         (case mixerClipDuration vp of
            None \<Rightarrow> []
          | Some d \<Rightarrow> map (\<lambda>fr. handleFrameChange d fr tf (viewportTotalFrames vp)) (framesToRender tf rs))"
proof -
  let ?frames = "framesToRender tf rs"
  let ?dir = "folder @ ''/'' @ animation"
  let ?j0 = "notify ''Export Started''
                            (''Exporting '' @ toString (int (length ?frames)) @ '' frames with effects applied...'') False
                            ((journal p)\<lparr>directories := directories (journal p) @ [?dir]\<rparr>)"
  from exportFrames_quiet[OF assms(1-6), of vp ?dir tf "length ?frames" 0 ?frames c ?j0]
  obtain c' j' where x: "exportFrames ev hst vp w h ?dir tf (length ?frames) 0 ?frames (c, ?j0) = (Settled, c', j')"
    and y: "savedFiles j' = savedFiles ?j0 @ map (frameFile ?dir) ?frames"
    and m: "mixerTimes j' = mixerTimes ?j0 @
                (case mixerClipDuration vp of
                   None \<Rightarrow> []
                 | Some d \<Rightarrow> map (\<lambda>fr. handleFrameChange d fr tf (viewportTotalFrames vp)) ?frames)"
    by blast
  have z: "savedFiles ?j0 = savedFiles (journal p)" "mixerTimes ?j0 = mixerTimes (journal p)"
    by (simp_all add: notify_def)
  have "exportSequence ev hst vp w h rs (Some folder) (Some animation) tf p
      = (Settled, (putBack c' p)\<lparr>journal := notify ''Export Complete''
                              (toString (int (length ?frames)) @ '' frames exported with effects to '' @ ?dir)
                              False j'\<rparr>)"
    using assms(7-12) x by (auto simp: exportSequence_def truthy_def Let_def)
  then show ?thesis using y m z by (simp add: notify_def)
qed

lemma samplePage_fiber: "fiber samplePage = Some sampleContext"
  by (simp add: fiber_def samplePage_def sampleContext_def)

lemma sampleExport:
  "savedFiles (journal (snd (exportSequence quietEnvironment workingHost sampleViewport 128 128 rs
      (Some ''out'') (Some ''walk'') tf samplePage)))
     = map (frameFile ''out/walk'') (framesToRender tf rs)
   \<and> mixerTimes (journal (snd (exportSequence quietEnvironment workingHost sampleViewport 128 128 rs
      (Some ''out'') (Some ''walk'') tf samplePage)))
     = map (\<lambda>fr. handleFrameChange 2 fr tf 60) (framesToRender tf rs)"
proof -
  have q: "\<And>st. throwsAt quietEnvironment st = None" "context2d quietEnvironment"
      "imageLoads quietEnvironment"
    by (simp_all add: quietEnvironment_def)
  have sz: "(128::int) \<noteq> 0" by simp
  have sv: "\<And>filename img. saveVia workingHost filename img"
    by (simp add: saveVia_def workingHost_def)
  have cr: "createVia workingHost (''out'' @ ''/'' @ ''walk'')"
    by (simp add: createVia_def workingHost_def)
  have api: "electron workingHost \<noteq> None \<or> electronAPI workingHost \<noteq> None"
    by (simp add: workingHost_def)
  have ne: "''out'' \<noteq> []" "''walk'' \<noteq> []" by simp_all
  have cv: "canvas samplePage" by (simp add: samplePage_def)
  have j: "savedFiles (journal samplePage) = []" "mixerTimes (journal samplePage) = []"
    by (simp_all add: samplePage_def emptyJournal_def)
  have vp: "mixerClipDuration sampleViewport = Some 2" "viewportTotalFrames sampleViewport = 60"
    by (simp_all add: sampleViewport_def)
  show ?thesis
    using exportSequence_quiet[OF q sz sz sv cr api ne cv samplePage_fiber, of sampleViewport rs tf]
    by (simp add: j vp)
qed

lemma frameFile_0: "frameFile ''out/walk'' 0 = ''out/walk/frame_0000.png''"
  by (simp add: frameFile_def padStart_def toString_def digitsOf.simps digitChar_def
      numeral_2_eq_2 numeral_3_eq_3)

lemma frameFile_59: "frameFile ''out/walk'' 59 = ''out/walk/frame_0059.png''"
  by (simp add: frameFile_def padStart_def toString_def digitsOf.simps digitChar_def
      numeral_2_eq_2 numeral_3_eq_3)

text \<open>
  C3. The claim: a model whose one clip lasts 2 seconds has \<open>totalFrames = 60\<close>, and
  \<open>exportSequence\<close> with \<open>renderSteps = 1\<close> writes the 60 files \<open>frame_0000.png\<close> to
  \<open>frame_0059.png\<close> into \<open>outputFolder/animationName\<close>. The program: the count is 60, and
  with every directory and file operation succeeding it writes two files, the first and
  the last frame.
\<close>

theorem exportSequence_two_second_clip:
  "totalFrames (modelChanged (Some [\<lparr>clipName = ''walk'', duration = 2\<rparr>])
       \<lparr>isPlaying = False, currentAnimation = None, currentFrame = 0, totalFrames = 0\<rparr>) = 60
   \<and> savedFiles (journal (snd (exportSequence quietEnvironment workingHost sampleViewport 128 128 1
        (Some ''out'') (Some ''walk'') 60 samplePage)))
      = [''out/walk/frame_0000.png'', ''out/walk/frame_0059.png'']"
proof -
  have "totalFrames (modelChanged (Some [\<lparr>clipName = ''walk'', duration = 2\<rparr>])
       \<lparr>isPlaying = False, currentAnimation = None, currentFrame = 0, totalFrames = 0\<rparr>) = 60"
    by (simp add: modelChanged_def truthy_def framesOfDuration_def)
  moreover have "savedFiles (journal (snd (exportSequence quietEnvironment workingHost sampleViewport
        128 128 1 (Some ''out'') (Some ''walk'') 60 samplePage)))
      = [''out/walk/frame_0000.png'', ''out/walk/frame_0059.png'']"
    using sampleExport[of 1 60] by (simp add: framesToRender_60_1 frameFile_0 frameFile_59)
  ultimately show ?thesis by simp
qed

text \<open>
  C6. The claim: for a sampled frame \<open>f\<close> the mixer is set to
  \<open>(f / totalFrames) \<times> clip.duration\<close>. The program, exporting a 2-second clip of 60
  frames with \<open>renderSteps = 2\<close> (frames 0, 30, 59): the listener of \<open>frame-change\<close>
  divides by \<open>totalFrames - 1\<close>, so frame 30 is set to \<open>60/59\<close> seconds and frame 59 to the
  clip's end, while the viewport's own seek of frame 30 gives 1 second; with a single
  frame the divisor is zero.
\<close>

theorem frameChange_seek_time:
  "mixerTimes (journal (snd (exportSequence quietEnvironment workingHost sampleViewport 128 128 2
        (Some ''out'') (Some ''walk'') 60 samplePage))) = [Some 0, Some (60 / 59), Some 2]
   \<and> seekCurrentFrame 2 30 60 = 1
   \<and> handleFrameChange 2 0 1 1 = None"
proof -
  have "mixerTimes (journal (snd (exportSequence quietEnvironment workingHost sampleViewport 128 128 2
        (Some ''out'') (Some ''walk'') 60 samplePage))) = [Some 0, Some (60 / 59), Some 2]"
    using sampleExport[of 2 60] by (simp add: framesToRender_60_2 handleFrameChange_def)
  moreover have "seekCurrentFrame 2 30 60 = 1" by (simp add: seekCurrentFrame_def)
  moreover have "handleFrameChange 2 0 1 1 = None" by (simp add: handleFrameChange_def)
  ultimately show ?thesis by simp
qed

text \<open>
  C5, as the program has it. When the renderer, the scene or the camera is missing,
  \<open>exportFrame\<close> reports the error ``Could not access the 3D scene'' and returns with
  the page otherwise untouched: nothing is rendered. The size is not checked anywhere.
  With a width or a height of zero, and no other failure on the way, \<open>renderFrame\<close>
  does fail, but at \<open>drawImage\<close> with the canvas error \<open>InvalidStateError\<close>, after the
  renderer has been given the requested size and the render pass has been issued. For
  every size, zero and negative ones included, the render pass is issued.
\<close>

theorem export_guards:
  assumes "canvas p" and "fiber p = None"
    and "\<And>st. throwsAt ev st = None" and "context2d ev"
    and "width = 0 \<or> height = 0"
  shows "exportFrame ev' w h p
           = (Settled, p\<lparr>journal := notify ''Error'' ''Could not access the 3D scene'' True (journal p)\<rparr>)
   \<and> renderCount (snd (exportFrame ev' w h p)) = renderCount p
   \<and> fst (renderFrame ev width height frameIndex c) = Raised ''InvalidStateError''
   \<and> sizeWidth (renderer (snd (tryBlock ev width height c))) = real_of_int width
   \<and> sizeHeight (renderer (snd (tryBlock ev width height c))) = real_of_int height
   \<and> renderCalls (snd (tryBlock ev width height c)) = Suc (renderCalls c)
   \<and> renderCalls (snd (renderFrame ev w h frameIndex c)) = Suc (renderCalls c)"
proof -
  have a: "exportFrame ev' w h p
           = (Settled, p\<lparr>journal := notify ''Error'' ''Could not access the 3D scene'' True (journal p)\<rparr>)"
    using assms(1,2) by (simp add: exportFrame_def)
  then have a': "renderCount (snd (exportFrame ev' w h p)) = renderCount p" by simp
  have "fst (tryBlock ev width height c) = Raised ''InvalidStateError''"
    using assms(3-5) by (rule tryBlock_zero)
  then have b: "fst (renderFrame ev width height frameIndex c) = Raised ''InvalidStateError''"
    by (simp add: renderFrame_cases)
  have d: "sizeWidth (renderer (snd (tryBlock ev width height c))) = real_of_int width"
      "sizeHeight (renderer (snd (tryBlock ev width height c))) = real_of_int height"
      "renderCalls (snd (tryBlock ev width height c)) = Suc (renderCalls c)"
    using runStages_no_throw[OF assms(3), of width height c] by (simp_all add: tryBlock_snd)
  have e: "renderCalls (snd (renderFrame ev w h frameIndex c)) = Suc (renderCalls c)"
    using assms(3) by (rule renderFrame_renders)
  show ?thesis by (intro conjI a a' b d e)
qed

theorem export_guards_witness:
  "canvas blankPage \<and> fiber blankPage = None
   \<and> (\<forall>st. throwsAt quietEnvironment st = None) \<and> context2d quietEnvironment
   \<and> exportFrame quietEnvironment 0 128 blankPage
       = (Settled, blankPage\<lparr>journal :=
            notify ''Error'' ''Could not access the 3D scene'' True (journal blankPage)\<rparr>)
   \<and> renderCount (snd (exportFrame quietEnvironment 0 128 blankPage)) = renderCount blankPage
   \<and> fst (renderFrame quietEnvironment 0 128 0 sampleContext) = Raised ''InvalidStateError''
   \<and> sizeWidth (renderer (snd (tryBlock quietEnvironment 0 128 sampleContext))) = 0
   \<and> renderCalls (snd (tryBlock quietEnvironment 0 128 sampleContext)) = Suc (renderCalls sampleContext)
   \<and> renderCalls (snd (renderFrame quietEnvironment (- 5) 128 0 sampleContext))
       = Suc (renderCalls sampleContext)"
proof -
  have a: "canvas blankPage" and b: "fiber blankPage = None"
    by (simp_all add: blankPage_def fiber_def)
  have q: "\<And>st. throwsAt quietEnvironment st = None" and x: "context2d quietEnvironment"
    by (simp_all add: quietEnvironment_def)
  have z: "(0::int) = 0 \<or> (128::int) = 0" by simp
  note t = export_guards[OF a b q x z, of quietEnvironment 0 128 0 sampleContext]
  note u = export_guards[OF a b q x z, of quietEnvironment "- 5" 128 0 sampleContext]
  from t have t1: "exportFrame quietEnvironment 0 128 blankPage
       = (Settled, blankPage\<lparr>journal :=
            notify ''Error'' ''Could not access the 3D scene'' True (journal blankPage)\<rparr>)"
    by (rule conjunct1)
  from t have t2: "renderCount (snd (exportFrame quietEnvironment 0 128 blankPage)) = renderCount blankPage"
    by (rule conjunct1[OF conjunct2])
  from t have t3: "fst (renderFrame quietEnvironment 0 128 0 sampleContext) = Raised ''InvalidStateError''"
    by (rule conjunct1[OF conjunct2[OF conjunct2]])
  from t have t4: "sizeWidth (renderer (snd (tryBlock quietEnvironment 0 128 sampleContext))) = 0"
    by simp
  from t have t5: "renderCalls (snd (tryBlock quietEnvironment 0 128 sampleContext))
      = Suc (renderCalls sampleContext)"
    by simp
  from u have t6: "renderCalls (snd (renderFrame quietEnvironment (- 5) 128 0 sampleContext))
       = Suc (renderCalls sampleContext)"
    by simp
  from q have q': "\<forall>st. throwsAt quietEnvironment st = None" by blast
  show ?thesis by (intro conjI a b q' x t1 t2 t3 t4 t5 t6)
qed

text \<open>
  C5, as the claim has it, at \<open>width = 0\<close>: the call fails, but not before rendering or
  before touching the renderer. When the error is raised the render pass has been
  issued (the count went from 0 to 1) and the renderer has the size \<open>0 \<times> 128\<close>.
\<close>

theorem renderFrame_zero_width:
  "fst (renderFrame quietEnvironment 0 128 0 sampleContext) = Raised ''InvalidStateError''
   \<and> renderCalls sampleContext = 0
   \<and> renderCalls (snd (tryBlock quietEnvironment 0 128 sampleContext)) = 1
   \<and> sizeWidth (renderer sampleContext) = 800
   \<and> sizeWidth (renderer (snd (tryBlock quietEnvironment 0 128 sampleContext))) = 0"
proof -
  have q: "\<And>st. throwsAt quietEnvironment st = None" and x: "context2d quietEnvironment"
    by (simp_all add: quietEnvironment_def)
  have z: "(0::int) = 0 \<or> (128::int) = 0" by simp
  have "fst (tryBlock quietEnvironment 0 128 sampleContext) = Raised ''InvalidStateError''"
    using q x z by (rule tryBlock_zero)
  then have a: "fst (renderFrame quietEnvironment 0 128 0 sampleContext) = Raised ''InvalidStateError''"
    by (simp add: renderFrame_cases)
  have b: "renderCalls sampleContext = 0" "sizeWidth (renderer sampleContext) = 800"
    by (simp_all add: sampleContext_def sampleRenderer_def)
  have d: "renderCalls (snd (tryBlock quietEnvironment 0 128 sampleContext)) = 1"
      "sizeWidth (renderer (snd (tryBlock quietEnvironment 0 128 sampleContext))) = 0"
    using runStages_no_throw[OF q, of 0 128 sampleContext] b by (simp_all add: tryBlock_snd)
  show ?thesis by (intro conjI a b d)
qed

section \<open>Animation clock\<close>

lemma frame_steps_in_range:
  assumes "1 \<le> frameTotal" and "0 \<le> cur" and "cur < frameTotal"
  shows "updateFrame frameTotal cur = Some ((cur + 1) mod frameTotal)"
    and "0 \<le> (cur + 1) mod frameTotal" and "(cur + 1) mod frameTotal < frameTotal"
    and "0 \<le> nextFrame frameTotal cur" and "nextFrame frameTotal cur < frameTotal"
    and "nextFrame frameTotal (frameTotal - 1) = 0"
    and "0 \<le> previousFrame frameTotal cur" and "previousFrame frameTotal cur < frameTotal"
    and "previousFrame frameTotal 0 = frameTotal - 1"
  using assms by (simp_all add: updateFrame_def js_rem_def nextFrame_def previousFrame_def)

text \<open>
  C9. The claim: the clock keeps the current frame in \<open>[0, totalFrames)\<close>, and switching
  the active animation resets the current frame to \<open>0\<close> and recomputes \<open>totalFrames\<close> as
  \<open>floor(newClip.duration \<times> 30)\<close>. The program, for a model with the clips \<open>walk\<close>
  (2 seconds) and \<open>run\<close> (half a second, 15 frames), switching from \<open>walk\<close> to \<open>run\<close>:
  the callback sets \<open>totalFrames\<close> to 15, then the hook's effect on the changed
  animation name sets it to the count of the model's first clip, 60.
\<close>

theorem switchAnimation_keeps_first_count:
  "totalFrames (setAnimation
      (Some [\<lparr>clipName = ''walk'', duration = 2\<rparr>, \<lparr>clipName = ''run'', duration = 1 / 2\<rparr>]) ''run''
      \<lparr>isPlaying = False, currentAnimation = Some ''walk'', currentFrame = 41, totalFrames = 60\<rparr>) = 15
   \<and> totalFrames (switchAnimation
      (Some [\<lparr>clipName = ''walk'', duration = 2\<rparr>, \<lparr>clipName = ''run'', duration = 1 / 2\<rparr>]) ''run''
      \<lparr>isPlaying = False, currentAnimation = Some ''walk'', currentFrame = 41, totalFrames = 60\<rparr>) = 60
   \<and> currentFrame (switchAnimation
      (Some [\<lparr>clipName = ''walk'', duration = 2\<rparr>, \<lparr>clipName = ''run'', duration = 1 / 2\<rparr>]) ''run''
      \<lparr>isPlaying = False, currentAnimation = Some ''walk'', currentFrame = 41, totalFrames = 60\<rparr>) = 0
   \<and> currentAnimation (switchAnimation
      (Some [\<lparr>clipName = ''walk'', duration = 2\<rparr>, \<lparr>clipName = ''run'', duration = 1 / 2\<rparr>]) ''run''
      \<lparr>isPlaying = False, currentAnimation = Some ''walk'', currentFrame = 41, totalFrames = 60\<rparr>)
       = Some ''run''"
  by (simp add: switchAnimation_def setAnimation_def modelChanged_def findClip_def truthy_def
      framesOfDuration_def)

section \<open>Effects stage\<close>

text \<open>
  C10. The shader never changes the alpha channel: for every setting of brightness,
  contrast, saturation, hue and colour steps and every input pixel, the output pixel
  has the input pixel's alpha.
\<close>

theorem fragmentShader_alpha:
  "alphaOf (fragmentShader fx texel) = alphaOf texel"
  by (cases texel) (simp add: fragmentShader_def alphaOf_def split: prod.splits)





section \<open>Preview-to-export mapper\<close>

lemma fl_interval:
  fixes fl :: "real \<Rightarrow> real" and lo x hi :: real
  assumes "\<And>x. \<bar>fl x - x\<bar> \<le> \<bar>x\<bar> / 1000000" and "0 \<le> lo" and "lo \<le> x" and "x \<le> hi"
  shows "lo * (999999 / 1000000) \<le> fl x" and "fl x \<le> hi * (1000001 / 1000000)"
proof -
  have "0 \<le> x" using assms(2,3) by simp
  then have "\<bar>fl x - x\<bar> \<le> x / 1000000" using assms(1)[of x] by simp
  then show "lo * (999999 / 1000000) \<le> fl x" and "fl x \<le> hi * (1000001 / 1000000)"
    using assms(3,4) by linarith+
qed

lemma product_interval:
  fixes x y :: real
  assumes "lx \<le> x" and "x \<le> ux" and "ly \<le> y" and "y \<le> uy" and "0 \<le> lx" and "0 \<le> ly"
  shows "lx * ly \<le> x * y" and "x * y \<le> ux * uy"
proof -
  show "lx * ly \<le> x * y" using assms by (intro mult_mono) simp_all
  show "x * y \<le> ux * uy" using assms by (intro mult_mono) simp_all
qed

lemma js_round_eq:
  fixes v :: real
  assumes "real_of_int n - 1 / 2 \<le> v" and "v < real_of_int n + 1 / 2"
  shows "js_round v = n"
  unfolding js_round_def using assms by (intro floor_unique) simp_all

lemma previewSize_square:
  fixes fl :: "real \<Rightarrow> real"
  assumes fl: "\<And>x. \<bar>fl x - x\<bar> \<le> \<bar>x\<bar> / 1000000"
  shows "\<exists>pw ph. previewSize fl 1500 1500 128 128 = (pw, ph)
           \<and> 146997 / 100 \<le> pw \<and> pw \<le> 147003 / 100
           \<and> 146999 / 100 \<le> ph \<and> ph \<le> 147001 / 100"
proof -
  define a where "a = fl (49 / 50)"
  define t where "t = fl (fl (17 / 20) + fl (fl (3 / 2) * fl (13 / 100)))"
  define one where "one = fl 1"
  define m where "m = fl 750"
  define ph where "ph = fl (1500 * a)"
  define pw where "pw = fl (ph * one)"
  have a: "979999 / 1000000 \<le> a" "a \<le> 980001 / 1000000"
    using fl_interval[OF fl, of "49 / 50" "49 / 50" "49 / 50"] by (simp_all add: a_def)
  have q: "14 / 10 \<le> fl (3 / 2)"
    using fl_interval(1)[OF fl, of "3 / 2" "3 / 2" "3 / 2"] by simp
  have b: "12 / 100 \<le> fl (13 / 100)"
    using fl_interval(1)[OF fl, of "13 / 100" "13 / 100" "13 / 100"] by simp
  have "14 / 10 * (12 / 100) \<le> fl (3 / 2) * fl (13 / 100)"
    using q b by (intro mult_mono) simp_all
  then have qb: "168 / 1000 \<le> fl (3 / 2) * fl (13 / 100)" by simp
  have t1: "16 / 100 \<le> fl (fl (3 / 2) * fl (13 / 100))"
    using fl_interval(1)[OF fl _ qb order_refl] by simp
  have e: "84 / 100 \<le> fl (17 / 20)"
    using fl_interval(1)[OF fl, of "17 / 20" "17 / 20" "17 / 20"] by simp
  have sum: "1 \<le> fl (17 / 20) + fl (fl (3 / 2) * fl (13 / 100))" using e t1 by simp
  have t: "99 / 100 \<le> t"
    using fl_interval(1)[OF fl _ sum order_refl] by (simp add: t_def)
  have mn: "min a t = a" using a(2) t by simp
  have pa: "14699985 / 10000 \<le> 1500 * a" "1500 * a \<le> 14700015 / 10000" using a by simp_all
  have ph: "146999 / 100 \<le> ph" "ph \<le> 147001 / 100"
    using fl_interval[OF fl _ pa] by (simp_all add: ph_def)
  have one: "999999 / 1000000 \<le> one" "one \<le> 1000001 / 1000000"
    using fl_interval[OF fl, of 1 1 1] by (simp_all add: one_def)
  have "146999 / 100 * (999999 / 1000000) \<le> ph * one" "ph * one \<le> 147001 / 100 * (1000001 / 1000000)"
    using product_interval[OF ph one] by simp_all
  then have po: "146998 / 100 \<le> ph * one" "ph * one \<le> 147002 / 100" by simp_all
  have pw: "146997 / 100 \<le> pw" "pw \<le> 147003 / 100"
    using fl_interval[OF fl _ po] by (simp_all add: pw_def)
  have m: "749 \<le> m" "m \<le> 751"
    using fl_interval[OF fl, of 750 750 750] by (simp_all add: m_def)
  have "749 * (999999 / 1000000) \<le> m * one" "m * one \<le> 751 * (1000001 / 1000000)"
    using product_interval[OF m one] by simp_all
  then have mo: "0 \<le> m * one" "m * one \<le> 752" by simp_all
  have fm: "fl (m * one) \<le> 753"
    using fl_interval(2)[OF fl order_refl mo] by simp
  have mx: "max pw (fl (m * one)) = pw" "max ph m = ph"
    using fm pw(1) m(2) ph(1) by simp_all
  have "previewSize fl 1500 1500 128 128 = (pw, ph)"
    by (simp add: previewSize_def Let_def a_def[symmetric] t_def[symmetric] one_def[symmetric]
        m_def[symmetric] mn ph_def[symmetric] pw_def[symmetric] mx)
  then show ?thesis using pw ph by blast
qed

text \<open>
  C4. The claim: the width and the height of the Export Rectangle never exceed 90\% of
  the viewport's, the rectangle has the export's aspect ratio, lies inside the viewport
  and is at least 30\% of the viewport's shorter side. The program, for a viewport of
  1500 by 1500 pixels and the export size 128 by 128 it always computes with, whatever
  the rounding of the arithmetic within a relative error of one in a million: the
  rectangle is 1470 by 1470 pixels at (15, 15), that is 98\% of the viewport, where 90\%
  is 1350.
\<close>

theorem updateExportPreview_exceeds_cap:
  fixes fl :: "real \<Rightarrow> real"
  assumes fl: "\<And>x. \<bar>fl x - x\<bar> \<le> \<bar>x\<bar> / 1000000"
  shows "updateExportPreview fl 1500 1500 128 128
           = \<lparr>rectLeft = 15, rectTop = 15, rectWidth = 1470, rectHeight = 1470\<rparr>
   \<and> 90 / 100 * 1500 < real_of_int (rectWidth (updateExportPreview fl 1500 1500 128 128))
   \<and> 90 / 100 * 1500 < real_of_int (rectHeight (updateExportPreview fl 1500 1500 128 128))"
proof -
  from previewSize_square[OF fl] obtain pw ph where
    v: "previewSize fl 1500 1500 128 128 = (pw, ph)"
    and pw: "146997 / 100 \<le> pw" "pw \<le> 147003 / 100"
    and ph: "146999 / 100 \<le> ph" "ph \<le> 147001 / 100"
    by blast
  have offset: "js_round (fl (fl (1500 - d) / 2)) = 15"
    if d: "146997 / 100 \<le> d" "d \<le> 147003 / 100" for d
  proof -
    have r: "2997 / 100 \<le> 1500 - d" "1500 - d \<le> 3003 / 100" using d by simp_all
    have f: "2996 / 100 \<le> fl (1500 - d)" "fl (1500 - d) \<le> 3004 / 100"
      using fl_interval[OF fl _ r] by simp_all
    then have h: "1498 / 100 \<le> fl (1500 - d) / 2" "fl (1500 - d) / 2 \<le> 1502 / 100" by simp_all
    have "1497 / 100 \<le> fl (fl (1500 - d) / 2)" "fl (fl (1500 - d) / 2) \<le> 1503 / 100"
      using fl_interval[OF fl _ h] by simp_all
    then show ?thesis by (intro js_round_eq) simp_all
  qed
  have l: "js_round (fl (fl (1500 - pw) / 2)) = 15" using pw by (rule offset)
  have t: "js_round (fl (fl (1500 - ph) / 2)) = 15" using ph by (intro offset) simp_all
  have w: "js_round pw = 1470" using pw by (intro js_round_eq) simp_all
  have h: "js_round ph = 1470" using ph by (intro js_round_eq) simp_all
  have "updateExportPreview fl 1500 1500 128 128
           = \<lparr>rectLeft = 15, rectTop = 15, rectWidth = 1470, rectHeight = 1470\<rparr>"
    by (simp add: updateExportPreview_def v l t w h)
  then show ?thesis by simp
qed

theorem updateExportPreview_exceeds_cap_witness:
  "(\<forall>x::real. \<bar>x - x\<bar> \<le> \<bar>x\<bar> / 1000000)
   \<and> updateExportPreview (\<lambda>x. x) 1500 1500 128 128
       = \<lparr>rectLeft = 15, rectTop = 15, rectWidth = 1470, rectHeight = 1470\<rparr>
   \<and> 90 / 100 * 1500 < real_of_int (rectWidth (updateExportPreview (\<lambda>x. x) 1500 1500 128 128))
   \<and> 90 / 100 * 1500 < real_of_int (rectHeight (updateExportPreview (\<lambda>x. x) 1500 1500 128 128))"
proof -
  have e: "\<And>x::real. \<bar>(\<lambda>x. x) x - x\<bar> \<le> \<bar>x\<bar> / 1000000" by simp
  have e': "\<forall>x::real. \<bar>x - x\<bar> \<le> \<bar>x\<bar> / 1000000" by simp
  note t = updateExportPreview_exceeds_cap[of "\<lambda>x. x", OF e]
  show ?thesis using e' t by (intro conjI) blast+
qed

end
